theory Spec2Isabelle
  imports
    Complex_Main
    "HOL-Library.Log_Nat"
    "HOL-Library.AList"
    "HOL-Library.Multiset"
    "HOL-Library.Char_ord"
    "HOL-Library.List_Lexorder"
    "HOL-Library.Product_Lexorder"
begin

section \<open>Binary64 arithmetic\<close>

text \<open>
  The notebooks compute with NumPy \<^verbatim>\<open>float64\<close> values. A finite double is modelled by the
  rational number it denotes, and every arithmetic operation rounds its exact result to the
  nearest double, ties to even, with gradual underflow below \<open>2 powi (- 1022)\<close>. Not-a-number,
  the infinities, the sign of zero and overflow beyond the binary64 range are outside the
  model: the exponent is unbounded above.
\<close>

type_synonym double = rat

text \<open>\<open>lb x\<close> is the binary exponent of a positive rational: \<open>2 powi lb x \<le> x < 2 powi (lb x + 1)\<close>.\<close>

definition lb :: "rat \<Rightarrow> int" where
  "lb x = (let (p, q) = quotient_of x; d = bitlen p - bitlen q
           in if 2 powi d \<le> x then d else d - 1)"

text \<open>Rounding to the nearest integer, ties to the even one (C's \<^verbatim>\<open>rint\<close>).\<close>

definition rint :: "rat \<Rightarrow> int" where
  "rint x = (let f = \<lfloor>x\<rfloor>; r = x - of_int f
             in if r < 1 / 2 then f else if 1 / 2 < r then f + 1
                else if even f then f else f + 1)"

text \<open>
  The unit in the last place of a double near \<open>x\<close> is \<open>2 powi (e - 52)\<close> for the exponent
  \<open>e\<close> of \<open>x\<close>, never below that of the subnormals; \<open>fl x\<close> rounds \<open>x\<close> to a multiple of it,
  that is to 53 significant bits.
\<close>

definition ulp :: "rat \<Rightarrow> rat" where
  "ulp x = 2 powi (max (lb \<bar>x\<bar>) (- 1022) - 52)"

definition fl :: "rat \<Rightarrow> double" where
  "fl x = (if x = 0 then 0 else sgn x * of_int (rint (\<bar>x\<bar> / ulp x)) * ulp x)"

definition fadd :: "double \<Rightarrow> double \<Rightarrow> double" where
  "fadd a b = fl (a + b)"

definition fsub :: "double \<Rightarrow> double \<Rightarrow> double" where
  "fsub a b = fl (a - b)"

definition fmul :: "double \<Rightarrow> double \<Rightarrow> double" where
  "fmul a b = fl (a * b)"

text \<open>
  Division by zero gives \<^verbatim>\<open>nan\<close> or an infinity in NumPy (with a warning) and raises
  \<^verbatim>\<open>ZeroDivisionError\<close> on Python floats; both are \<open>None\<close> here.
\<close>

definition fdiv :: "double \<Rightarrow> double \<Rightarrow> double option" where
  "fdiv a b = (if b = 0 then None else Some (fl (a / b)))"

text \<open>A decimal literal of the source denotes the double nearest to it.\<close>

definition lit :: "rat \<Rightarrow> double" where
  "lit q = fl q"

section \<open>Tables\<close>

text \<open>
  A pandas \<^verbatim>\<open>DataFrame\<close> is the list of its columns in order, each a name with a
  \<^verbatim>\<open>Series\<close> of values; row \<open>i\<close> of the table is position \<open>i\<close> of every column.
\<close>

datatype error =
    KeyError string
  | FileNotFoundError string
  | ValueError
  | FitError string

type_synonym series = "double list"
type_synonym dataframe = "(string \<times> series) list"

definition ebind :: "error + 'a \<Rightarrow> ('a \<Rightarrow> error + 'b) \<Rightarrow> error + 'b" where
  "ebind m f = (case m of Inl e \<Rightarrow> Inl e | Inr x \<Rightarrow> f x)"

text \<open>\<^verbatim>\<open>df[c]\<close>: the column, or \<^verbatim>\<open>KeyError\<close> naming it.\<close>

definition getitem :: "dataframe \<Rightarrow> string \<Rightarrow> error + series" where
  "getitem df c = (case map_of df c of None \<Rightarrow> Inl (KeyError c) | Some s \<Rightarrow> Inr s)"

text \<open>\<^verbatim>\<open>df[c] = s\<close>: an existing column is replaced in place, a new one is appended.\<close>

definition setitem :: "dataframe \<Rightarrow> string \<Rightarrow> series \<Rightarrow> dataframe" where
  "setitem df c s = AList.update c s df"

definition columns :: "dataframe \<Rightarrow> string list" where
  "columns df = map fst df"

text \<open>All columns of a table have the same number of rows.\<close>

definition nrows_ok :: "nat \<Rightarrow> dataframe \<Rightarrow> bool" where
  "nrows_ok n df = list_all (\<lambda>cs. length (snd cs) = n) df"

text \<open>Elementwise arithmetic on columns of one table.\<close>

definition series_div_scalar :: "series \<Rightarrow> double \<Rightarrow> series" where
  "series_div_scalar s k = map (\<lambda>x. fl (x / k)) s"

definition series_mul :: "series \<Rightarrow> series \<Rightarrow> series" where
  "series_mul a b = map2 fmul a b"

definition series_add :: "series \<Rightarrow> series \<Rightarrow> series" where
  "series_add a b = map2 fadd a b"

definition scalar_sub_series :: "double \<Rightarrow> series \<Rightarrow> series" where
  "scalar_sub_series k s = map (\<lambda>x. fsub k x) s"

definition scalar_mul_series :: "double \<Rightarrow> series \<Rightarrow> series" where
  "scalar_mul_series k s = map (\<lambda>x. fmul k x) s"

section \<open>Feature engineering\<close>

text \<open>
  The three assignments shared by the notebooks (\<^verbatim>\<open>preprocess\<close> in the regression notebook,
  inline in the other two):
  \<^verbatim>\<open>
  df["Battery Level Norm"] = df["Battery Level"] / 100
  df["Scale-Intensity Centrality"] = df["Communication Intensity"] * df["Communication Scale"]
  df["Trust Score"] = (0.2 * (1 - df["Latency"]) + 0.1 * (1 - df["Packet Loss"])
      + 0.2 * df["Sensor Functionality"] + 0.1 * df["Battery Level Norm"]
      + 0.2 * df["Scale-Intensity Centrality"] + 0.1 * df["Closeness Centrality"]
      + 0.1 * df["Eigenvector Centrality"])
  \<close>
\<close>

definition trust_score_series ::
  "series \<Rightarrow> series \<Rightarrow> series \<Rightarrow> series \<Rightarrow> series \<Rightarrow> series \<Rightarrow> series \<Rightarrow> series" where
  "trust_score_series lat pl sf bn sic cc ec =
     series_add (series_add (series_add (series_add (series_add (series_add
       (scalar_mul_series (lit (2 / 10)) (scalar_sub_series 1 lat))
       (scalar_mul_series (lit (1 / 10)) (scalar_sub_series 1 pl)))
       (scalar_mul_series (lit (2 / 10)) sf))
       (scalar_mul_series (lit (1 / 10)) bn))
       (scalar_mul_series (lit (2 / 10)) sic))
       (scalar_mul_series (lit (1 / 10)) cc))
       (scalar_mul_series (lit (1 / 10)) ec)"

definition feature_engineering :: "dataframe \<Rightarrow> error + dataframe" where
  "feature_engineering df =
     ebind (getitem df ''Battery Level'') (\<lambda>bl.
     let df1 = setitem df ''Battery Level Norm'' (series_div_scalar bl 100) in
     ebind (getitem df1 ''Communication Intensity'') (\<lambda>ci.
     ebind (getitem df1 ''Communication Scale'') (\<lambda>cs.
     let df2 = setitem df1 ''Scale-Intensity Centrality'' (series_mul ci cs) in
     ebind (getitem df2 ''Latency'') (\<lambda>lat.
     ebind (getitem df2 ''Packet Loss'') (\<lambda>pl.
     ebind (getitem df2 ''Sensor Functionality'') (\<lambda>sf.
     ebind (getitem df2 ''Battery Level Norm'') (\<lambda>bn.
     ebind (getitem df2 ''Scale-Intensity Centrality'') (\<lambda>sic.
     ebind (getitem df2 ''Closeness Centrality'') (\<lambda>cc.
     ebind (getitem df2 ''Eigenvector Centrality'') (\<lambda>ec.
     Inr (setitem df2 ''Trust Score''
            (trust_score_series lat pl sf bn sic cc ec))))))))))))"

text \<open>The raw columns read by the three assignments, and the columns they write.\<close>

definition raw_columns :: "string list" where
  "raw_columns =
     [''Battery Level'', ''Communication Intensity'', ''Communication Scale'', ''Latency'',
      ''Packet Loss'', ''Sensor Functionality'', ''Closeness Centrality'',
      ''Eigenvector Centrality'']"

definition derived_columns :: "string list" where
  "derived_columns = [''Battery Level Norm'', ''Scale-Intensity Centrality'', ''Trust Score'']"

text \<open>The same formulas on the fields of one row.\<close>

definition battery_level_norm :: "double \<Rightarrow> double" where
  "battery_level_norm bl = fl (bl / 100)"

definition scale_intensity_centrality :: "double \<Rightarrow> double \<Rightarrow> double" where
  "scale_intensity_centrality ci cs = fmul ci cs"

definition trust_score ::
  "double \<Rightarrow> double \<Rightarrow> double \<Rightarrow> double \<Rightarrow> double \<Rightarrow> double \<Rightarrow> double \<Rightarrow> double" where
  "trust_score lat pl sf bn sic cc ec =
     fadd (fadd (fadd (fadd (fadd (fadd
       (fmul (lit (2 / 10)) (fsub 1 lat))
       (fmul (lit (1 / 10)) (fsub 1 pl)))
       (fmul (lit (2 / 10)) sf))
       (fmul (lit (1 / 10)) bn))
       (fmul (lit (2 / 10)) sic))
       (fmul (lit (1 / 10)) cc))
       (fmul (lit (1 / 10)) ec)"

text \<open>The coefficients of the seven terms, in the order of the source's formula.\<close>

definition trust_weights :: "double list" where
  "trust_weights =
     [lit (2 / 10), lit (1 / 10), lit (2 / 10), lit (1 / 10), lit (2 / 10), lit (1 / 10),
      lit (1 / 10)]"

text \<open>
  The value of a column in row \<open>i\<close>, and the rows the data model calls valid: the
  normalised raw fields between 0 and 1, the battery level between 0 and 100.
\<close>

definition cell :: "dataframe \<Rightarrow> string \<Rightarrow> nat \<Rightarrow> double option" where
  "cell df c i =
     (case map_of df c of
        None \<Rightarrow> None
      | Some s \<Rightarrow> if i < length s then Some (s ! i) else None)"

definition in_range :: "dataframe \<Rightarrow> nat \<Rightarrow> string \<Rightarrow> rat \<Rightarrow> rat \<Rightarrow> bool" where
  "in_range df i c lo hi =
     (case cell df c i of None \<Rightarrow> False | Some v \<Rightarrow> lo \<le> v \<and> v \<le> hi)"

definition valid_row :: "dataframe \<Rightarrow> nat \<Rightarrow> bool" where
  "valid_row df i =
     (in_range df i ''Latency'' 0 1 \<and> in_range df i ''Packet Loss'' 0 1
      \<and> in_range df i ''Sensor Functionality'' 0 1
      \<and> in_range df i ''Closeness Centrality'' 0 1
      \<and> in_range df i ''Eigenvector Centrality'' 0 1
      \<and> in_range df i ''Communication Intensity'' 0 1
      \<and> in_range df i ''Communication Scale'' 0 1
      \<and> in_range df i ''Battery Level'' 0 100)"

text \<open>
  \<^verbatim>\<open>df[features]\<close> and the result of \<^verbatim>\<open>preprocess\<close> (regression notebook). Where several
  columns are missing pandas names them all in its \<^verbatim>\<open>KeyError\<close>; the model names the first.
\<close>

definition features :: "string list" where
  "features =
     [''Trust Score'', ''Latency'', ''Packet Loss'', ''Relative Speed'',
      ''Location Accuracy'', ''Battery Level Norm'',
      ''Scale-Intensity Centrality'', ''Closeness Centrality'']"

fun select_columns :: "dataframe \<Rightarrow> string list \<Rightarrow> error + dataframe" where
  "select_columns df [] = Inr []"
| "select_columns df (c # cs) =
     ebind (getitem df c) (\<lambda>s.
     ebind (select_columns df cs) (\<lambda>r. Inr ((c, s) # r)))"

text \<open>
  \<^verbatim>\<open>preprocess\<close> mutates its argument; the table after the three assignments is returned
  with \<open>X\<close> and \<open>y\<close>.
\<close>

definition preprocess :: "dataframe \<Rightarrow> error + (dataframe \<times> dataframe \<times> series)" where
  "preprocess df =
     ebind (feature_engineering df) (\<lambda>df'.
     ebind (select_columns df' features) (\<lambda>X.
     ebind (getitem df' ''Swarm Coordination Rate'') (\<lambda>y.
     Inr (df', X, y))))"

section \<open>The libraries\<close>

text \<open>
  File access, scaling, the shuffled split, the three estimators and the regression metrics
  belong to pandas, scikit-learn and Keras. They are parameters of the model: a function
  that may raise. \<open>train_indices n\<close> lists the rows, numbered below \<open>n\<close>, that
  \<^verbatim>\<open>train_test_split(..., test_size=0.2, random_state=42)\<close> puts in the training part of
  \<open>n\<close> rows; a fitted estimator is its \<^verbatim>\<open>predict\<close> function.
\<close>

type_synonym matrix = "double list list"
type_synonym tensor = "double list list list"

record 'y library =
  read_csv :: "string \<Rightarrow> error + dataframe"
  fit_transform :: "dataframe \<Rightarrow> error + matrix"
  train_indices :: "nat \<Rightarrow> error + nat list"
  rf_fit :: "matrix \<Rightarrow> 'y list \<Rightarrow> error + (matrix \<Rightarrow> error + double list)"
  svr_fit :: "matrix \<Rightarrow> 'y list \<Rightarrow> error + (matrix \<Rightarrow> error + double list)"
  cnn_fit :: "tensor \<Rightarrow> 'y list \<Rightarrow> error + (tensor \<Rightarrow> error + matrix)"
  mean_absolute_error :: "double list \<Rightarrow> double list \<Rightarrow> error + double"
  mean_squared_error :: "double list \<Rightarrow> double list \<Rightarrow> error + double"
  r2_score :: "double list \<Rightarrow> double list \<Rightarrow> error + double"

text \<open>Only the training parts of the split are used by the notebooks.\<close>

definition train_test_split ::
  "'y library \<Rightarrow> 'a list \<Rightarrow> 'b list \<Rightarrow> error + ('a list \<times> 'b list)" where
  "train_test_split L X y =
     (if length X \<noteq> length y then Inl ValueError
      else ebind (train_indices L (length X)) (\<lambda>idx.
           Inr (map ((!) X) idx, map ((!) y) idx)))"

text \<open>
  What scikit-learn promises of the training part of \<^verbatim>\<open>train_test_split(..., test_size=0.2)\<close>
  on \<open>n\<close> rows: the test part takes \<^verbatim>\<open>ceil(0.2 * n)\<close> rows and the training part the others;
  the call raises when the training part would be empty, and otherwise that part consists of
  distinct rows of the table, given here by their numbers.
\<close>

definition valid_split :: "'y library \<Rightarrow> bool" where
  "valid_split L \<longleftrightarrow>
     (\<forall>n idx. train_indices L n = Inr idx \<longrightarrow>
        idx \<noteq> [] \<and> distinct idx \<and> (\<forall>i \<in> set idx. i < n)
        \<and> length idx = n - (n + 4) div 5)"

definition model_rf ::
  "'y library \<Rightarrow> matrix \<Rightarrow> 'y list \<Rightarrow> matrix \<Rightarrow> error + double list" where
  "model_rf L X_train y_train X_all =
     ebind (rf_fit L X_train y_train) (\<lambda>model. model X_all)"

definition model_svm ::
  "'y library \<Rightarrow> matrix \<Rightarrow> 'y list \<Rightarrow> matrix \<Rightarrow> error + double list" where
  "model_svm L X_train y_train X_all =
     ebind (svr_fit L X_train y_train) (\<lambda>model. model X_all)"

definition model_cnn ::
  "'y library \<Rightarrow> tensor \<Rightarrow> 'y list \<Rightarrow> tensor \<Rightarrow> error + double list" where
  "model_cnn L X_train y_train X_all =
     ebind (cnn_fit L X_train y_train) (\<lambda>model.
     ebind (model X_all) (\<lambda>p. Inr (concat p)))"

text \<open>\<^verbatim>\<open>X_scaled.reshape((n, m, 1))\<close>.\<close>

definition reshape :: "matrix \<Rightarrow> tensor" where
  "reshape X = map (map (\<lambda>v. [v])) X"

section \<open>Running a notebook cell\<close>

text \<open>
  A loop of a notebook either runs to its end or stops at the first exception, which no
  notebook catches; the state reached is kept in both cases.
\<close>

datatype 's outcome = Done 's | Raised error 's

fun for_each :: "('s \<Rightarrow> 'a \<Rightarrow> 's outcome) \<Rightarrow> 's \<Rightarrow> 'a list \<Rightarrow> 's outcome" where
  "for_each body s [] = Done s"
| "for_each body s (x # xs) =
     (case body s x of
        Done s' \<Rightarrow> for_each body s' xs
      | Raised e s' \<Rightarrow> Raised e s')"

text \<open>The state a loop stopped in, whether it ended or raised.\<close>

definition state_of :: "'s outcome \<Rightarrow> 's" where
  "state_of out = (case out of Done s \<Rightarrow> s | Raised e s \<Rightarrow> s)"

record console =
  stdout :: "string list"

record row_key =
  Attack :: string
  Model :: string

section \<open>Classification notebook\<close>

definition file_paths :: "(string \<times> string) list" where
  "file_paths =
     [(''Critical Node'', ''C:/Users/Documents/AirSim/drone_simulation_log_critical_node.csv''),
      (''Data Manipulation'',
       ''C:/Users/Documents/AirSim/drone_simulation_log_data_manipulation.csv''),
      (''MITM Attack'', ''C:/Users/danis/AirSim/drone_simulation_log_mitm.csv''),
      (''Sybil Attack'', ''C:/Users/Documents/AirSim/drone_sybil_attack.csv'')]"

text \<open>\<^verbatim>\<open>(v >= 0.85).astype(int)\<close>.\<close>

definition binarize :: "double list \<Rightarrow> nat list" where
  "binarize vs = map (\<lambda>v. if lit (85 / 100) \<le> v then 1 else 0) vs"

text \<open>\<^verbatim>\<open>len(np.unique(y_binary))\<close>.\<close>

definition n_unique :: "nat list \<Rightarrow> nat" where
  "n_unique ys = length (remdups ys)"

text \<open>
  scikit-learn's \<^verbatim>\<open>confusion_matrix(y_true, y_pred, labels=[0, 1])\<close>: entry \<open>(i, j)\<close> counts
  the rows of class \<open>i\<close> predicted as \<open>j\<close>; vectors of different lengths are refused.
  \<open>ravel\<close> lists the entries as \<open>(tn, fp, fn, tp)\<close>.
\<close>

type_synonym confusion = "(nat \<times> nat) \<times> (nat \<times> nat)"

definition count_pairs :: "nat \<Rightarrow> nat \<Rightarrow> nat list \<Rightarrow> nat list \<Rightarrow> nat" where
  "count_pairs t p ys ps = length (filter (\<lambda>(a, b). a = t \<and> b = p) (zip ys ps))"

definition confusion_matrix :: "nat list \<Rightarrow> nat list \<Rightarrow> error + confusion" where
  "confusion_matrix y_true y_pred =
     (if length y_true \<noteq> length y_pred then Inl ValueError
      else Inr ((count_pairs 0 0 y_true y_pred, count_pairs 0 1 y_true y_pred),
                (count_pairs 1 0 y_true y_pred, count_pairs 1 1 y_true y_pred)))"

definition ravel :: "confusion \<Rightarrow> nat \<times> nat \<times> nat \<times> nat" where
  "ravel cm = (fst (fst cm), snd (fst cm), fst (snd cm), snd (snd cm))"

record cls_state = console +
  conf_data :: "(string \<times> string \<times> confusion) list"

definition processing_msg :: "string \<Rightarrow> string" where
  "processing_msg attack =
     [CHR 0x0A, CHR 0xF0, CHR 0x9F, CHR 0x93, CHR 0x8C] @ '' Processing: '' @ attack"

definition skipping_msg :: "string \<Rightarrow> string" where
  "skipping_msg attack =
     [CHR 0xE2, CHR 0x9A, CHR 0xA0, CHR 0xEF, CHR 0xB8, CHR 0x8F] @ '' Skipping '' @ attack
       @ '': insufficient class diversity''"

definition preds_dict ::
  "nat library \<Rightarrow> dataframe \<Rightarrow> nat list \<Rightarrow> error + (string \<times> double list) list" where
  "preds_dict L df y_binary =
     ebind (select_columns df features) (\<lambda>X.
     ebind (fit_transform L X) (\<lambda>X_scaled.
     let X_reshaped = reshape X_scaled in
     ebind (train_test_split L X_scaled y_binary) (\<lambda>(X_train, y_train).
     ebind (train_test_split L X_reshaped y_binary) (\<lambda>(X_train_r, y_train_r).
     ebind (model_rf L X_train y_train X_scaled) (\<lambda>p_rf.
     ebind (model_svm L X_train y_train X_scaled) (\<lambda>p_svm.
     ebind (model_cnn L X_train_r y_train_r X_reshaped) (\<lambda>p_cnn.
     Inr [(''Random Forest'', p_rf), (''SVM'', p_svm), (''CNN'', p_cnn)])))))))"

definition collect_model ::
  "string \<Rightarrow> nat list \<Rightarrow> cls_state \<Rightarrow> string \<times> double list \<Rightarrow> cls_state outcome" where
  "collect_model attack y_binary s mp =
     (case mp of (model_name, preds) \<Rightarrow>
        let y_pred = binarize preds in
        case confusion_matrix y_binary y_pred of
          Inl e \<Rightarrow> Raised e s
        | Inr cm \<Rightarrow> Done (s\<lparr>conf_data := conf_data s @ [(attack, model_name, cm)]\<rparr>))"

definition load_scenario :: "'y library \<Rightarrow> string \<Rightarrow> error + (dataframe \<times> series)" where
  "load_scenario L path =
     ebind (read_csv L path) (\<lambda>df.
     ebind (feature_engineering df) (\<lambda>df'.
     ebind (getitem df' ''Swarm Coordination Rate'') (\<lambda>y_true.
     Inr (df', y_true))))"

definition process_scenario ::
  "nat library \<Rightarrow> cls_state \<Rightarrow> string \<times> string \<Rightarrow> cls_state outcome" where
  "process_scenario L s0 ap =
     (case ap of (attack, path) \<Rightarrow>
        let s = s0\<lparr>stdout := stdout s0 @ [processing_msg attack]\<rparr> in
        case load_scenario L path of
          Inl e \<Rightarrow> Raised e s
        | Inr (df, y_true) \<Rightarrow>
            let y_binary = binarize y_true in
            if n_unique y_binary < 2
            then Done (s\<lparr>stdout := stdout s @ [skipping_msg attack]\<rparr>)
            else (case preds_dict L df y_binary of
                    Inl e \<Rightarrow> Raised e s
                  | Inr ps \<Rightarrow> for_each (collect_model attack y_binary) s ps))"

definition collect_confusion :: "nat library \<Rightarrow> cls_state outcome" where
  "collect_confusion L =
     for_each (process_scenario L) \<lparr>stdout = [], conf_data = []\<rparr> file_paths"

text \<open>
  The metrics table. \<^verbatim>\<open>tp / (tp + fp)\<close> divides NumPy integers: both are converted to
  doubles and a zero divisor gives \<^verbatim>\<open>nan\<close> or an infinity, \<open>None\<close> here.
  \<^verbatim>\<open>round(x, n)\<close> on a NumPy double is \<^verbatim>\<open>rint(x * 10**n) / 10**n\<close>.
\<close>

definition np_divide :: "nat \<Rightarrow> nat \<Rightarrow> double option" where
  "np_divide a b = fdiv (fl (of_nat a)) (fl (of_nat b))"

definition np_round :: "nat \<Rightarrow> double \<Rightarrow> double" where
  "np_round n x = fl (of_int (rint (fl (x * 10 ^ n))) / 10 ^ n)"

definition precision :: "confusion \<Rightarrow> double option" where
  "precision cm =
     (case ravel cm of (tn, fp, fn, tp) \<Rightarrow>
        if tp + fp > 0 then np_divide tp (tp + fp) else Some 0)"

definition recall :: "confusion \<Rightarrow> double option" where
  "recall cm =
     (case ravel cm of (tn, fp, fn, tp) \<Rightarrow>
        if tp + fn > 0 then np_divide tp (tp + fn) else Some 0)"

definition f1 :: "confusion \<Rightarrow> double option" where
  "f1 cm =
     Option.bind (precision cm) (\<lambda>p.
     Option.bind (recall cm) (\<lambda>r.
       if fadd p r > 0 then fdiv (fmul 2 (fmul p r)) (fadd p r) else Some 0))"

definition accuracy :: "confusion \<Rightarrow> double option" where
  "accuracy cm =
     (case ravel cm of (tn, fp, fn, tp) \<Rightarrow> np_divide (tp + tn) (tp + tn + fp + fn))"

record cls_row = row_key +
  Accuracy :: "double option"
  Precision :: "double option"
  Recall :: "double option"
  F1_Score :: "double option"
  Support_Malicious :: nat
  Support_Trustworthy :: nat

definition metrics_row :: "string \<times> string \<times> confusion \<Rightarrow> cls_row" where
  "metrics_row entry =
     (case entry of (attack, model, cm) \<Rightarrow>
      case ravel cm of (tn, fp, fn, tp) \<Rightarrow>
        \<lparr>Attack = attack, Model = model,
         Accuracy = map_option (np_round 4) (accuracy cm),
         Precision = map_option (np_round 4) (precision cm),
         Recall = map_option (np_round 4) (recall cm),
         F1_Score = map_option (np_round 4) (f1 cm),
         Support_Malicious = tn + fp,
         Support_Trustworthy = fn + tp\<rparr>)"

definition metrics_data :: "(string \<times> string \<times> confusion) list \<Rightarrow> cls_row list" where
  "metrics_data cd = map metrics_row cd"

text \<open>The table displayed by the notebook: the rows in the order they were appended.\<close>

definition metrics_df :: "nat library \<Rightarrow> error + cls_row list" where
  "metrics_df L =
     (case collect_confusion L of
        Done s \<Rightarrow> Inr (metrics_data (conf_data s))
      | Raised e s \<Rightarrow> Inl e)"

section \<open>Regression notebook\<close>

definition attack_files :: "(string \<times> string) list" where
  "attack_files =
     [(''Critical Node'', ''C:/Users/Documents/AirSim/drone_simulation_log_critical_node.csv''),
      (''Data Manipulation'',
       ''C:/Users/Documents/AirSim/drone_simulation_log_data_manipulation.csv''),
      (''MITM Attack'', ''C:/Users/Documents/AirSim/drone_simulation_log_mitm.csv''),
      (''Sybil Attack'', ''C:/Users/Documents/AirSim/drone_sybil_attack.csv'')]"

record reg_row = row_key +
  MAE :: double
  RMSE :: double
  R2_Score :: double

record reg_state = console +
  summary :: "reg_row list"

definition processing_msg_reg :: "string \<Rightarrow> string" where
  "processing_msg_reg attack_name = [CHR 0x0A] @ '' Processing: '' @ attack_name"

definition models ::
  "double library \<Rightarrow> dataframe \<Rightarrow> series \<Rightarrow> error + (string \<times> double list) list" where
  "models L X y =
     ebind (fit_transform L X) (\<lambda>X_scaled.
     let X_reshaped = reshape X_scaled in
     ebind (train_test_split L X_scaled y) (\<lambda>(X_train, y_train).
     ebind (train_test_split L X_reshaped y) (\<lambda>(X_train_r, y_train_r).
     ebind (model_svm L X_train y_train X_scaled) (\<lambda>p_svm.
     ebind (model_rf L X_train y_train X_scaled) (\<lambda>p_rf.
     ebind (model_cnn L X_train_r y_train X_reshaped) (\<lambda>p_cnn.
     Inr [(''SVM (SVR)'', p_svm), (''Random Forest'', p_rf), (''CNN'', p_cnn)]))))))"

text \<open>
  \<^verbatim>\<open>mean_absolute_error\<close> and \<^verbatim>\<open>np.sqrt(mean_squared_error(...))\<close> give NumPy doubles, rounded
  by NumPy as above. \<^verbatim>\<open>r2_score\<close> gives a Python float, and \<^verbatim>\<open>round(x, n)\<close> on a Python float is
  correctly rounded: the exact value of \<open>x\<close> is rounded to \<open>n\<close> decimals, ties to even, and
  the result is the double nearest to that decimal number.
\<close>

definition py_round :: "nat \<Rightarrow> double \<Rightarrow> double" where
  "py_round n x = fl (of_int (rint (x * 10 ^ n)) / 10 ^ n)"

definition score ::
  "double library \<Rightarrow> string \<Rightarrow> string \<Rightarrow> series \<Rightarrow> double list \<Rightarrow> error + reg_row" where
  "score L attack_name model_name y preds =
     ebind (mean_absolute_error L y preds) (\<lambda>mae.
     ebind (mean_squared_error L y preds) (\<lambda>rmse.
     ebind (r2_score L y preds) (\<lambda>r2.
     Inr \<lparr>Attack = attack_name, Model = model_name,
          MAE = np_round 6 mae, RMSE = np_round 6 rmse, R2_Score = py_round 4 r2\<rparr>)))"

definition evaluate_model ::
  "double library \<Rightarrow> string \<Rightarrow> series \<Rightarrow> reg_state \<Rightarrow> string \<times> double list
     \<Rightarrow> reg_state outcome" where
  "evaluate_model L attack_name y s mp =
     (case mp of (model_name, preds) \<Rightarrow>
        case score L attack_name model_name y preds of
          Inl e \<Rightarrow> Raised e s
        | Inr r \<Rightarrow> Done (s\<lparr>summary := summary s @ [r]\<rparr>))"

definition evaluate_scenario ::
  "double library \<Rightarrow> reg_state \<Rightarrow> string \<times> string \<Rightarrow> reg_state outcome" where
  "evaluate_scenario L s0 ap =
     (case ap of (attack_name, path) \<Rightarrow>
        let s = s0\<lparr>stdout := stdout s0 @ [processing_msg_reg attack_name]\<rparr> in
        case ebind (read_csv L path) preprocess of
          Inl e \<Rightarrow> Raised e s
        | Inr (df, X, y) \<Rightarrow>
            (case models L X y of
               Inl e \<Rightarrow> Raised e s
             | Inr ps \<Rightarrow> for_each (evaluate_model L attack_name y) s ps))"

definition evaluation_pipeline :: "double library \<Rightarrow> reg_state outcome" where
  "evaluation_pipeline L =
     for_each (evaluate_scenario L) \<lparr>stdout = [], summary = []\<rparr> attack_files"



section \<open>Example scenarios\<close>

text \<open>
  A table of three rows with every raw column: the first row has every weighted term at its
  maximum, the others are ordinary readings. Two of its rows reach the coordination
  threshold. \<open>steady\<close> is the same log with every row above the threshold.
\<close>

definition telemetry :: dataframe where
  "telemetry =
     [(''Iteration'', [0, 1, 2]),
      (''Battery Level'', [100, 87, 64]),
      (''Communication Intensity'', [1, 1 / 2, 3 / 4]),
      (''Communication Scale'', [1, 1 / 4, 1 / 2]),
      (''Latency'', [0, 1 / 4, 1 / 8]),
      (''Packet Loss'', [0, 1 / 8, 1 / 16]),
      (''Sensor Functionality'', [1, 3 / 4, 1]),
      (''Closeness Centrality'', [1, 1 / 2, 1 / 4]),
      (''Eigenvector Centrality'', [1, 1 / 2, 1 / 4]),
      (''Relative Speed'', [3, 5, 4]),
      (''Location Accuracy'', [1, 1 / 2, 3 / 4]),
      (''Swarm Coordination Rate'', [7 / 8, 3 / 4, 15 / 16])]"

definition steady :: dataframe where
  "steady = setitem telemetry ''Swarm Coordination Rate'' [15 / 16, 7 / 8, 15 / 16]"

text \<open>
  Stand-ins for the libraries. The first scenario's file holds \<open>telemetry\<close>, the others
  \<open>steady\<close>; the scaler keeps one feature; the split takes the leading four fifths of the
  rows; the estimators predict a constant; the metrics look at the first row only.
\<close>

definition demo :: "'y library" where
  "demo =
     \<lparr>read_csv = (\<lambda>path.
        if path = ''C:/Users/Documents/AirSim/drone_simulation_log_critical_node.csv''
        then Inr telemetry else Inr steady),
      fit_transform = (\<lambda>X.
        case map_of X ''Closeness Centrality'' of
          None \<Rightarrow> Inl ValueError
        | Some s \<Rightarrow> Inr (map (\<lambda>v. [v]) s)),
      train_indices = (\<lambda>n.
        if n - (n + 4) div 5 = 0 then Inl ValueError else Inr [0..<n - (n + 4) div 5]),
      rf_fit = (\<lambda>X y. Inr (\<lambda>X_all. Inr (map (\<lambda>r. 0) X_all))),
      svr_fit = (\<lambda>X y. Inr (\<lambda>X_all. Inr (map (\<lambda>r. 1) X_all))),
      cnn_fit = (\<lambda>X y. Inr (\<lambda>X_all. Inr (map (\<lambda>r. [15 / 16]) X_all))),
      mean_absolute_error = (\<lambda>y p.
        if length y \<noteq> length p \<or> y = [] then Inl ValueError else Inr \<bar>hd y - hd p\<bar>),
      mean_squared_error = (\<lambda>y p.
        if length y \<noteq> length p \<or> y = [] then Inl ValueError else Inr \<bar>hd y - hd p\<bar>),
      r2_score = (\<lambda>y p.
        if length y \<noteq> length p \<or> y = [] then Inl ValueError
        else Inr (1 - \<bar>hd y - hd p\<bar>))\<rparr>"


text \<open>The rows the regression notebook collects on the stand-in libraries.\<close>

definition demo_summary :: "reg_row list" where
  "demo_summary =
     [\<lparr>Attack = ''Critical Node'', Model = ''SVM (SVR)'',
        MAE = 1 / 8, RMSE = 1 / 8, R2_Score = 7 / 8\<rparr>,
      \<lparr>Attack = ''Critical Node'', Model = ''Random Forest'',
        MAE = 7 / 8, RMSE = 7 / 8, R2_Score = 1 / 8\<rparr>,
      \<lparr>Attack = ''Critical Node'', Model = ''CNN'',
        MAE = 1 / 16, RMSE = 1 / 16, R2_Score = 15 / 16\<rparr>,
      \<lparr>Attack = ''Data Manipulation'', Model = ''SVM (SVR)'',
        MAE = 1 / 16, RMSE = 1 / 16, R2_Score = 15 / 16\<rparr>,
      \<lparr>Attack = ''Data Manipulation'', Model = ''Random Forest'',
        MAE = 15 / 16, RMSE = 15 / 16, R2_Score = 1 / 16\<rparr>,
      \<lparr>Attack = ''Data Manipulation'', Model = ''CNN'',
        MAE = 0, RMSE = 0, R2_Score = 1\<rparr>,
      \<lparr>Attack = ''MITM Attack'', Model = ''SVM (SVR)'',
        MAE = 1 / 16, RMSE = 1 / 16, R2_Score = 15 / 16\<rparr>,
      \<lparr>Attack = ''MITM Attack'', Model = ''Random Forest'',
        MAE = 15 / 16, RMSE = 15 / 16, R2_Score = 1 / 16\<rparr>,
      \<lparr>Attack = ''MITM Attack'', Model = ''CNN'',
        MAE = 0, RMSE = 0, R2_Score = 1\<rparr>,
      \<lparr>Attack = ''Sybil Attack'', Model = ''SVM (SVR)'',
        MAE = 1 / 16, RMSE = 1 / 16, R2_Score = 15 / 16\<rparr>,
      \<lparr>Attack = ''Sybil Attack'', Model = ''Random Forest'',
        MAE = 15 / 16, RMSE = 15 / 16, R2_Score = 1 / 16\<rparr>,
      \<lparr>Attack = ''Sybil Attack'', Model = ''CNN'',
        MAE = 0, RMSE = 0, R2_Score = 1\<rparr>]"

text \<open>A one-row table that already carries a trust score, and the table derived from it.\<close>

definition rescored :: dataframe where
  "rescored =
     [(''Battery Level'', [100]),
      (''Communication Intensity'', [1]),
      (''Communication Scale'', [1]),
      (''Latency'', [0]),
      (''Packet Loss'', [0]),
      (''Sensor Functionality'', [1]),
      (''Closeness Centrality'', [1]),
      (''Eigenvector Centrality'', [1]),
      (''Trust Score'', [1 / 2])]"

definition rescored_derived :: dataframe where
  "rescored_derived =
     [(''Battery Level'', [100]),
      (''Communication Intensity'', [1]),
      (''Communication Scale'', [1]),
      (''Latency'', [0]),
      (''Packet Loss'', [0]),
      (''Sensor Functionality'', [1]),
      (''Closeness Centrality'', [1]),
      (''Eigenvector Centrality'', [1]),
      (''Trust Score'', [1]),
      (''Battery Level Norm'', [1]),
      (''Scale-Intensity Centrality'', [1])]"

section \<open>Properties of the rounding\<close>

lemma two_powi_pos: "0 < (2::rat) powi k"
  by (simp add: zero_less_power_int)

lemma bitlen_pos: "0 < p \<Longrightarrow> 1 \<le> bitlen p"
  by (auto simp: bitlen_alt_def)

lemma lb_bounds:
  assumes "0 < x"
  shows "2 powi lb x \<le> x \<and> x < 2 powi (lb x + 1)"
proof -
  obtain p q where pq: "quotient_of x = (p, q)"
    by (cases "quotient_of x")
  have q: "0 < q"
    using quotient_of_denom_pos [OF pq] .
  have x: "x = of_int p / of_int q"
    using quotient_of_div [OF pq] .
  have p: "0 < p"
    using assms q x by (simp add: zero_less_divide_iff)
  define d where "d = bitlen p - bitlen q"
  have p_hi: "(of_int p :: rat) < 2 powi bitlen p"
  proof -
    have "(of_int p :: rat) < of_int (2 ^ nat (bitlen p))"
      using bitlen_bounds [OF p] by (simp only: of_int_less_iff)
    then show ?thesis
      using bitlen_pos [OF p] by (simp add: power_int_nonneg_exp)
  qed
  have p_lo: "2 powi (bitlen p - 1) \<le> (of_int p :: rat)"
  proof -
    have "(of_int (2 ^ nat (bitlen p - 1)) :: rat) \<le> of_int p"
      using bitlen_bounds [OF p] by (simp only: of_int_le_iff)
    then show ?thesis
      using bitlen_pos [OF p] by (simp add: power_int_nonneg_exp)
  qed
  have q_hi: "(of_int q :: rat) < 2 powi bitlen q"
  proof -
    have "(of_int q :: rat) < of_int (2 ^ nat (bitlen q))"
      using bitlen_bounds [OF q] by (simp only: of_int_less_iff)
    then show ?thesis
      using bitlen_pos [OF q] by (simp add: power_int_nonneg_exp)
  qed
  have q_lo: "2 powi (bitlen q - 1) \<le> (of_int q :: rat)"
  proof -
    have "(of_int (2 ^ nat (bitlen q - 1)) :: rat) \<le> of_int q"
      using bitlen_bounds [OF q] by (simp only: of_int_le_iff)
    then show ?thesis
      using bitlen_pos [OF q] by (simp add: power_int_nonneg_exp)
  qed
  have up: "x < 2 powi (d + 1)"
  proof -
    have "of_int p / of_int q < (2::rat) powi bitlen p / 2 powi (bitlen q - 1)"
      using p p_hi q_lo two_powi_pos [of "bitlen q - 1"]
      by (intro frac_less) simp_all
    also have "\<dots> = 2 powi (d + 1)"
      by (simp add: d_def power_int_diff [symmetric] algebra_simps)
    finally show ?thesis
      by (simp add: x)
  qed
  have low: "2 powi (d - 1) \<le> x"
  proof -
    have "(2::rat) powi (bitlen p - 1) / 2 powi bitlen q \<le> of_int p / of_int q"
      using p q p_lo q_hi by (intro frac_le) simp_all
    moreover have "(2::rat) powi (bitlen p - 1) / 2 powi bitlen q = 2 powi (d - 1)"
      by (simp add: d_def power_int_diff [symmetric] algebra_simps)
    ultimately show ?thesis
      by (simp add: x)
  qed
  show ?thesis
  proof (cases "2 powi d \<le> x")
    case True
    then have "lb x = d"
      by (simp add: lb_def pq d_def)
    with True up show ?thesis
      by simp
  next
    case False
    then have "lb x = d - 1"
      by (simp add: lb_def pq d_def)
    with False low show ?thesis
      by simp
  qed
qed

lemma lb_unique:
  assumes "2 powi e \<le> x" and "x < 2 powi (e + 1)"
  shows "lb x = e"
proof -
  have pos: "0 < x"
    using assms(1) two_powi_pos [of e] by linarith
  have b: "2 powi lb x \<le> x" "x < 2 powi (lb x + 1)"
    using lb_bounds [OF pos] by simp_all
  have "(2::rat) powi e < 2 powi (lb x + 1)"
    using assms(1) b(2) by linarith
  then have 1: "e < lb x + 1"
    by (metis linorder_not_less one_less_numeral_iff power_int_increasing semiring_norm(76) less_eq_rat_def order_less_imp_le)
  have "(2::rat) powi lb x < 2 powi (e + 1)"
    using assms(2) b(1) by linarith
  then have 2: "lb x < e + 1"
    by (metis linorder_not_less one_less_numeral_iff power_int_increasing semiring_norm(76) less_eq_rat_def order_less_imp_le)
  from 1 2 show ?thesis
    by simp
qed


lemma rint_cases: "rint x = \<lfloor>x\<rfloor> \<or> rint x = \<lfloor>x\<rfloor> + 1"
  by (simp add: rint_def Let_def)

lemma rint_of_int: "rint (of_int n) = n"
  by (simp add: rint_def Let_def)

lemma rint_mono:
  assumes "x \<le> y"
  shows "rint x \<le> rint y"
proof (cases "\<lfloor>x\<rfloor> < \<lfloor>y\<rfloor>")
  case True
  then show ?thesis
    using rint_cases [of x] rint_cases [of y] by linarith
next
  case False
  then have eq: "\<lfloor>y\<rfloor> = \<lfloor>x\<rfloor>"
    using floor_mono [OF assms] by linarith
  have "x - of_int \<lfloor>x\<rfloor> \<le> y - of_int \<lfloor>x\<rfloor>"
    using assms by simp
  then show ?thesis
    unfolding rint_def Let_def eq by auto
qed

lemma powi_split: "(2::rat) powi n = 2 ^ k * 2 powi (n - int k)"
  using power_int_add [of "2::rat" "int k" "n - int k"] by simp

lemma ulp_pos: "0 < ulp x"
  by (simp add: ulp_def two_powi_pos)

lemma fl_pos_eq: "0 < x \<Longrightarrow> fl x = of_int (rint (x / ulp x)) * ulp x"
  by (simp add: fl_def)

lemma fl_zero: "fl 0 = 0"
  by (simp add: fl_def)

lemma fl_minus: "fl (- x) = - fl x"
  by (simp add: fl_def ulp_def sgn_minus)

lemma two_powi_mono: "m \<le> n \<Longrightarrow> (2::rat) powi m \<le> 2 powi n"
  by (rule power_int_increasing) simp_all

lemma fl_upper:
  assumes "0 < x"
  shows "fl x \<le> 2 powi (max (lb x) (- 1022) + 1)"
proof -
  define e where "e = max (lb x) (- 1022)"
  have u: "ulp x = 2 powi (e - 52)"
    using assms by (simp add: ulp_def e_def)
  have "x < 2 powi (lb x + 1)"
    using lb_bounds [OF assms] by simp
  also have "\<dots> \<le> 2 powi (e + 1)"
    by (rule two_powi_mono) (simp add: e_def)
  finally have "x \<le> 2 powi (e + 1)"
    by simp
  then have "x / ulp x \<le> 2 powi (e + 1) / 2 powi (e - 52)"
    unfolding u using two_powi_pos [of "e - 52"] by (intro divide_right_mono) simp_all
  also have "\<dots> = of_int (2 ^ 53)"
    by (simp add: power_int_diff [symmetric])
  finally have "rint (x / ulp x) \<le> 2 ^ 53"
    using rint_mono [of "x / ulp x" "of_int (2 ^ 53)"] by (simp only: rint_of_int)
  then have "(of_int (rint (x / ulp x)) :: rat) \<le> of_int (2 ^ 53)"
    by (simp only: of_int_le_iff)
  then have "of_int (rint (x / ulp x)) * ulp x \<le> of_int (2 ^ 53) * ulp x"
    using ulp_pos [of x] by (simp only: mult_le_cancel_right) simp
  also have "of_int (2 ^ 53) * ulp x = 2 powi (e + 1)"
    using powi_split [of "e + 1" 53] by (simp add: u)
  finally show ?thesis
    using assms by (simp add: fl_pos_eq e_def)
qed

lemma fl_lower:
  assumes "0 < x" and "- 1022 \<le> lb x"
  shows "2 powi lb x \<le> fl x"
proof -
  define e where "e = lb x"
  have u: "ulp x = 2 powi (e - 52)"
    using assms by (simp add: ulp_def e_def max_def)
  have "2 powi e \<le> x"
    using lb_bounds [OF assms(1)] by (simp add: e_def)
  then have "2 powi e / 2 powi (e - 52) \<le> x / ulp x"
    unfolding u using two_powi_pos [of "e - 52"] by (intro divide_right_mono) simp_all
  moreover have "(2::rat) powi e / 2 powi (e - 52) = of_int (2 ^ 52)"
    by (simp add: power_int_diff [symmetric])
  ultimately have "of_int (2 ^ 52) \<le> x / ulp x"
    by simp
  then have "2 ^ 52 \<le> rint (x / ulp x)"
    using rint_mono [of "of_int (2 ^ 52)" "x / ulp x"] by (simp only: rint_of_int)
  then have "(of_int (2 ^ 52) :: rat) \<le> of_int (rint (x / ulp x))"
    by (simp only: of_int_le_iff)
  then have "of_int (2 ^ 52) * ulp x \<le> of_int (rint (x / ulp x)) * ulp x"
    using ulp_pos [of x] by (simp only: mult_le_cancel_right) simp
  moreover have "of_int (2 ^ 52) * ulp x = 2 powi e"
    using powi_split [of e 52] by (simp add: u)
  ultimately show ?thesis
    using assms by (simp add: fl_pos_eq e_def)
qed

lemma lb_mono:
  assumes "0 < x" and "x \<le> y"
  shows "lb x \<le> lb y"
proof -
  have "2 powi lb x \<le> x"
    using lb_bounds [OF assms(1)] by simp
  moreover have "y < 2 powi (lb y + 1)"
    using lb_bounds [of y] assms by simp
  ultimately have "(2::rat) powi lb x < 2 powi (lb y + 1)"
    using assms(2) by linarith
  then have "lb x < lb y + 1"
    using two_powi_mono [of "lb y + 1" "lb x"] by linarith
  then show ?thesis
    by simp
qed

lemma fl_mono_pos:
  assumes "0 < x" and "x \<le> y"
  shows "fl x \<le> fl y"
proof -
  have y: "0 < y"
    using assms by simp
  define ex where "ex = max (lb x) (- 1022)"
  define ey where "ey = max (lb y) (- 1022)"
  have le: "ex \<le> ey"
    using lb_mono [OF assms] by (simp add: ex_def ey_def)
  show ?thesis
  proof (cases "ex = ey")
    case True
    then have u: "ulp y = ulp x"
      using assms y by (simp add: ulp_def ex_def ey_def)
    have "x / ulp x \<le> y / ulp x"
      using assms(2) ulp_pos [of x] by (intro divide_right_mono) simp_all
    then have "(of_int (rint (x / ulp x)) :: rat) \<le> of_int (rint (y / ulp x))"
      using rint_mono by (simp only: of_int_le_iff)
    then have "of_int (rint (x / ulp x)) * ulp x \<le> of_int (rint (y / ulp x)) * ulp x"
      using ulp_pos [of x] by (simp only: mult_le_cancel_right) simp
    then show ?thesis
      using assms(1) y by (simp add: fl_pos_eq u)
  next
    case False
    with le have lt: "ex < ey"
      by simp
    then have ly: "ey = lb y" "- 1022 \<le> lb y"
      by (simp_all add: ex_def ey_def max_def split: if_splits)
    have "fl x \<le> 2 powi (ex + 1)"
      using fl_upper [OF assms(1)] by (simp add: ex_def)
    also have "\<dots> \<le> 2 powi lb y"
      using lt ly(1) by (intro two_powi_mono) simp
    also have "\<dots> \<le> fl y"
      using fl_lower [OF y ly(2)] .
    finally show ?thesis .
  qed
qed

lemma rint_nonneg: "0 \<le> x \<Longrightarrow> 0 \<le> rint x"
  using rint_mono [of 0 x] rint_of_int [of 0] by simp

lemma fl_nonneg:
  assumes "0 \<le> x"
  shows "0 \<le> fl x"
proof (cases "x = 0")
  case True
  then show ?thesis
    by (simp add: fl_zero)
next
  case False
  with assms have x: "0 < x"
    by simp
  have "0 \<le> x / ulp x"
    using assms ulp_pos [of x] by simp
  then have "0 \<le> rint (x / ulp x)"
    by (rule rint_nonneg)
  then show ?thesis
    using ulp_pos [of x] x by (simp add: fl_pos_eq)
qed

lemma fl_mono_nonneg:
  assumes "0 \<le> x" and "x \<le> y"
  shows "fl x \<le> fl y"
proof (cases "x = 0")
  case True
  then show ?thesis
    using fl_nonneg [of y] assms by (simp add: fl_zero)
next
  case False
  with assms show ?thesis
    by (intro fl_mono_pos) simp_all
qed

lemma fl_mono:
  assumes "x \<le> y"
  shows "fl x \<le> fl y"
proof (cases "0 \<le> x")
  case True
  then show ?thesis
    using assms by (rule fl_mono_nonneg)
next
  case False
  then have x: "x < 0"
    by simp
  show ?thesis
  proof (cases "0 \<le> y")
    case True
    have "fl (- x) \<ge> 0"
      using x by (intro fl_nonneg) simp
    then have "fl x \<le> 0"
      by (simp add: fl_minus)
    also have "0 \<le> fl y"
      using True by (rule fl_nonneg)
    finally show ?thesis .
  next
    case False
    then have "fl (- y) \<le> fl (- x)"
      using assms by (intro fl_mono_nonneg) simp_all
    then show ?thesis
      by (simp add: fl_minus)
  qed
qed

lemma fadd_mono: "a \<le> a' \<Longrightarrow> b \<le> b' \<Longrightarrow> fadd a b \<le> fadd a' b'"
  unfolding fadd_def by (rule fl_mono) simp

lemma fadd_nonneg: "0 \<le> a \<Longrightarrow> 0 \<le> b \<Longrightarrow> 0 \<le> fadd a b"
  unfolding fadd_def by (rule fl_nonneg) simp

lemma fmul_nonneg: "0 \<le> a \<Longrightarrow> 0 \<le> b \<Longrightarrow> 0 \<le> fmul a b"
  unfolding fmul_def by (rule fl_nonneg) simp

lemma fmul_le_left: "0 \<le> w \<Longrightarrow> v \<le> 1 \<Longrightarrow> fmul w v \<le> fl w"
  unfolding fmul_def by (rule fl_mono) (simp add: mult_left_le)

text \<open>The doubles of the literals, and the partial sums of the weights in source order.\<close>

lemma fl_one: "fl 1 = 1"
  by code_simp

lemma lit_0_2: "lit (2 / 10) = 3602879701896397 / 18014398509481984"
  by code_simp

lemma lit_0_1: "lit (1 / 10) = 3602879701896397 / 36028797018963968"
  by code_simp

lemma fl_0_2: "fl (3602879701896397 / 18014398509481984) = 3602879701896397 / 18014398509481984"
  by code_simp

lemma fl_0_1: "fl (3602879701896397 / 36028797018963968) = 3602879701896397 / 36028797018963968"
  by code_simp

lemma partial_sum_1:
  "fadd (3602879701896397 / 18014398509481984) (3602879701896397 / 36028797018963968)
     = 1351079888211149 / 4503599627370496"
  by code_simp

lemma partial_sum_2:
  "fadd (1351079888211149 / 4503599627370496) (3602879701896397 / 18014398509481984) = 1 / 2"
  by code_simp

lemma partial_sum_3:
  "fadd (1 / 2) (3602879701896397 / 36028797018963968) = 5404319552844595 / 9007199254740992"
  by code_simp

lemma partial_sum_4:
  "fadd (5404319552844595 / 9007199254740992) (3602879701896397 / 18014398509481984)
     = 3602879701896397 / 4503599627370496"
  by code_simp

lemma partial_sum_5:
  "fadd (3602879701896397 / 4503599627370496) (3602879701896397 / 36028797018963968)
     = 8106479329266893 / 9007199254740992"
  by code_simp

lemma partial_sum_6:
  "fadd (8106479329266893 / 9007199254740992) (3602879701896397 / 36028797018963968) = 1"
  by code_simp

lemmas partial_sums =
  partial_sum_1 partial_sum_2 partial_sum_3 partial_sum_4 partial_sum_5 partial_sum_6

section \<open>The trust score\<close>

text \<open>
  C2. The seven weights of the trust score are the literals 0.2, 0.1, 0.2, 0.1, 0.2, 0.1,
  0.1, whatever the row: the score is the sum, from left to right, of the weights times the
  seven terms. The decimal constants add up to one, and so do their doubles when added in
  binary64 arithmetic in the order of the formula.
\<close>

theorem trust_weights_sum_one:
  "trust_weights = map lit [2 / 10, 1 / 10, 2 / 10, 1 / 10, 2 / 10, 1 / 10, 1 / 10]
   \<and> trust_score lat pl sf bn sic cc ec =
       (case map2 fmul trust_weights [fsub 1 lat, fsub 1 pl, sf, bn, sic, cc, ec] of
          [] \<Rightarrow> 0 | t # ts \<Rightarrow> foldl fadd t ts)
   \<and> sum_list [2 / 10, 1 / 10, 2 / 10, 1 / 10, 2 / 10, 1 / 10, 1 / 10 :: rat] = 1
   \<and> foldl fadd 0 trust_weights = 1"
proof (intro conjI)
  show "trust_weights = map lit [2 / 10, 1 / 10, 2 / 10, 1 / 10, 2 / 10, 1 / 10, 1 / 10]"
    by (simp add: trust_weights_def)
  show "trust_score lat pl sf bn sic cc ec =
       (case map2 fmul trust_weights [fsub 1 lat, fsub 1 pl, sf, bn, sic, cc, ec] of
          [] \<Rightarrow> 0 | t # ts \<Rightarrow> foldl fadd t ts)"
    by (simp add: trust_weights_def trust_score_def)
  show "sum_list [2 / 10, 1 / 10, 2 / 10, 1 / 10, 2 / 10, 1 / 10, 1 / 10 :: rat] = 1"
    by simp
  have start:
    "fadd 0 (3602879701896397 / 18014398509481984) = 3602879701896397 / 18014398509481984"
    by (simp add: fadd_def fl_0_2)
  show "foldl fadd 0 trust_weights = 1"
    unfolding trust_weights_def lit_0_2 lit_0_1
    by (simp only: foldl.simps start partial_sums)
qed

subsection \<open>Range of the derived fields\<close>

lemma fsub_one_range:
  assumes "0 \<le> v" and "v \<le> 1"
  shows "0 \<le> fsub 1 v \<and> fsub 1 v \<le> 1"
proof -
  have "fl (1 - v) \<le> fl 1"
    using assms by (intro fl_mono) simp
  moreover have "0 \<le> fl (1 - v)"
    using assms by (intro fl_nonneg) simp
  ultimately show ?thesis
    by (simp add: fsub_def fl_one)
qed

lemma weighted_0_2:
  assumes "0 \<le> v" and "v \<le> 1"
  shows "0 \<le> fmul (lit (2 / 10)) v
    \<and> fmul (lit (2 / 10)) v \<le> 3602879701896397 / 18014398509481984"
proof -
  have "fmul (3602879701896397 / 18014398509481984) v
      \<le> fl (3602879701896397 / 18014398509481984)"
    using assms by (intro fmul_le_left) simp_all
  moreover have "0 \<le> fmul (3602879701896397 / 18014398509481984) v"
    using assms by (intro fmul_nonneg) simp_all
  ultimately show ?thesis
    unfolding lit_0_2 fl_0_2 by simp
qed

lemma weighted_0_1:
  assumes "0 \<le> v" and "v \<le> 1"
  shows "0 \<le> fmul (lit (1 / 10)) v
    \<and> fmul (lit (1 / 10)) v \<le> 3602879701896397 / 36028797018963968"
proof -
  have "fmul (3602879701896397 / 36028797018963968) v
      \<le> fl (3602879701896397 / 36028797018963968)"
    using assms by (intro fmul_le_left) simp_all
  moreover have "0 \<le> fmul (3602879701896397 / 36028797018963968) v"
    using assms by (intro fmul_nonneg) simp_all
  ultimately show ?thesis
    unfolding lit_0_1 fl_0_1 by simp
qed

lemma trust_score_bounds:
  assumes "0 \<le> lat" "lat \<le> 1" "0 \<le> pl" "pl \<le> 1" "0 \<le> sf" "sf \<le> 1"
    and "0 \<le> bn" "bn \<le> 1" "0 \<le> sic" "sic \<le> 1" "0 \<le> cc" "cc \<le> 1"
    and "0 \<le> ec" "ec \<le> 1"
  shows "0 \<le> trust_score lat pl sf bn sic cc ec \<and> trust_score lat pl sf bn sic cc ec \<le> 1"
proof -
  let ?a = "3602879701896397 / 18014398509481984 :: rat"
  let ?b = "3602879701896397 / 36028797018963968 :: rat"
  define t1 where "t1 = fmul (lit (2 / 10)) (fsub 1 lat)"
  define t2 where "t2 = fmul (lit (1 / 10)) (fsub 1 pl)"
  define t3 where "t3 = fmul (lit (2 / 10)) sf"
  define t4 where "t4 = fmul (lit (1 / 10)) bn"
  define t5 where "t5 = fmul (lit (2 / 10)) sic"
  define t6 where "t6 = fmul (lit (1 / 10)) cc"
  define t7 where "t7 = fmul (lit (1 / 10)) ec"
  have t1: "0 \<le> t1" "t1 \<le> ?a"
    using weighted_0_2 [of "fsub 1 lat"] fsub_one_range [of lat] assms by (simp_all add: t1_def)
  have t2: "0 \<le> t2" "t2 \<le> ?b"
    using weighted_0_1 [of "fsub 1 pl"] fsub_one_range [of pl] assms by (simp_all add: t2_def)
  have t3: "0 \<le> t3" "t3 \<le> ?a"
    using weighted_0_2 [of sf] assms by (simp_all add: t3_def)
  have t4: "0 \<le> t4" "t4 \<le> ?b"
    using weighted_0_1 [of bn] assms by (simp_all add: t4_def)
  have t5: "0 \<le> t5" "t5 \<le> ?a"
    using weighted_0_2 [of sic] assms by (simp_all add: t5_def)
  have t6: "0 \<le> t6" "t6 \<le> ?b"
    using weighted_0_1 [of cc] assms by (simp_all add: t6_def)
  have t7: "0 \<le> t7" "t7 \<le> ?b"
    using weighted_0_1 [of ec] assms by (simp_all add: t7_def)
  have ts: "trust_score lat pl sf bn sic cc ec
      = fadd (fadd (fadd (fadd (fadd (fadd t1 t2) t3) t4) t5) t6) t7"
    by (simp add: trust_score_def t1_def t2_def t3_def t4_def t5_def t6_def t7_def)
  have lower: "0 \<le> fadd (fadd (fadd (fadd (fadd (fadd t1 t2) t3) t4) t5) t6) t7"
    by (intro fadd_nonneg t1 t2 t3 t4 t5 t6 t7)
  have "fadd t1 t2 \<le> fadd ?a ?b"
    by (intro fadd_mono t1 t2)
  then have s1: "fadd t1 t2 \<le> 1351079888211149 / 4503599627370496"
    by (simp only: partial_sum_1)
  have "fadd (fadd t1 t2) t3 \<le> fadd (1351079888211149 / 4503599627370496) ?a"
    by (intro fadd_mono s1 t3)
  then have s2: "fadd (fadd t1 t2) t3 \<le> 1 / 2"
    by (simp only: partial_sum_2)
  have "fadd (fadd (fadd t1 t2) t3) t4 \<le> fadd (1 / 2) ?b"
    by (intro fadd_mono s2 t4)
  then have s3: "fadd (fadd (fadd t1 t2) t3) t4 \<le> 5404319552844595 / 9007199254740992"
    by (simp only: partial_sum_3)
  have "fadd (fadd (fadd (fadd t1 t2) t3) t4) t5
      \<le> fadd (5404319552844595 / 9007199254740992) ?a"
    by (intro fadd_mono s3 t5)
  then have s4: "fadd (fadd (fadd (fadd t1 t2) t3) t4) t5
      \<le> 3602879701896397 / 4503599627370496"
    by (simp only: partial_sum_4)
  have "fadd (fadd (fadd (fadd (fadd t1 t2) t3) t4) t5) t6
      \<le> fadd (3602879701896397 / 4503599627370496) ?b"
    by (intro fadd_mono s4 t6)
  then have s5: "fadd (fadd (fadd (fadd (fadd t1 t2) t3) t4) t5) t6
      \<le> 8106479329266893 / 9007199254740992"
    by (simp only: partial_sum_5)
  have "fadd (fadd (fadd (fadd (fadd (fadd t1 t2) t3) t4) t5) t6) t7
      \<le> fadd (8106479329266893 / 9007199254740992) ?b"
    by (intro fadd_mono s5 t7)
  then have s6: "fadd (fadd (fadd (fadd (fadd (fadd t1 t2) t3) t4) t5) t6) t7 \<le> 1"
    by (simp only: partial_sum_6)
  from lower s6 show ?thesis
    by (simp only: ts)
qed

lemma battery_level_norm_bounds:
  assumes "0 \<le> bl" and "bl \<le> 100"
  shows "0 \<le> battery_level_norm bl \<and> battery_level_norm bl \<le> 1"
proof -
  have "fl (bl / 100) \<le> fl 1"
    using assms by (intro fl_mono) simp
  moreover have "0 \<le> fl (bl / 100)"
    using assms by (intro fl_nonneg) simp
  ultimately show ?thesis
    by (simp add: battery_level_norm_def fl_one)
qed

lemma scale_intensity_centrality_bounds:
  assumes "0 \<le> ci" "ci \<le> 1" "0 \<le> cs" "cs \<le> 1"
  shows "0 \<le> scale_intensity_centrality ci cs \<and> scale_intensity_centrality ci cs \<le> 1"
proof -
  have "ci * cs \<le> 1"
    using assms by (simp add: mult_le_one)
  then have "fl (ci * cs) \<le> fl 1"
    by (rule fl_mono)
  moreover have "0 \<le> fl (ci * cs)"
    using assms by (intro fl_nonneg) simp
  ultimately show ?thesis
    by (simp add: scale_intensity_centrality_def fmul_def fl_one)
qed


subsection \<open>Feature engineering on a table\<close>

lemma ebind_Inr_iff: "ebind m f = Inr y \<longleftrightarrow> (\<exists>x. m = Inr x \<and> f x = Inr y)"
  by (cases m) (simp_all add: ebind_def)

lemma ebind_Inr [simp]: "ebind (Inr x) f = f x"
  by (simp add: ebind_def)

lemma ebind_Inl [simp]: "ebind (Inl e) f = Inl e"
  by (simp add: ebind_def)

lemma getitem_setitem: "getitem (setitem df k v) c = (if c = k then Inr v else getitem df c)"
  by (simp add: getitem_def setitem_def update_conv')

lemma cell_Some_iff:
  "cell df c i = Some v \<longleftrightarrow> (\<exists>s. getitem df c = Inr s \<and> i < length s \<and> s ! i = v)"
  by (auto simp: cell_def getitem_def split: option.splits)

lemma in_range_iff:
  "in_range df i c lo hi \<longleftrightarrow>
     (\<exists>s. getitem df c = Inr s \<and> i < length s \<and> lo \<le> s ! i \<and> s ! i \<le> hi)"
  by (auto simp: in_range_def cell_def getitem_def split: option.splits)

lemma feature_engineering_success:
  assumes "getitem df ''Battery Level'' = Inr bl"
    and "getitem df ''Communication Intensity'' = Inr ci"
    and "getitem df ''Communication Scale'' = Inr cs"
    and "getitem df ''Latency'' = Inr lat"
    and "getitem df ''Packet Loss'' = Inr pl"
    and "getitem df ''Sensor Functionality'' = Inr sf"
    and "getitem df ''Closeness Centrality'' = Inr cc"
    and "getitem df ''Eigenvector Centrality'' = Inr ec"
  shows "feature_engineering df =
    Inr (setitem (setitem (setitem df ''Battery Level Norm'' (series_div_scalar bl 100))
           ''Scale-Intensity Centrality'' (series_mul ci cs))
           ''Trust Score''
           (trust_score_series lat pl sf (series_div_scalar bl 100) (series_mul ci cs) cc ec))"
  by (simp add: feature_engineering_def Let_def getitem_setitem assms)

lemma trust_score_series_nth:
  assumes "i < length lat" "i < length pl" "i < length sf" "i < length bn"
    and "i < length sic" "i < length cc" "i < length ec"
  shows "i < length (trust_score_series lat pl sf bn sic cc ec)"
    and "trust_score_series lat pl sf bn sic cc ec ! i
      = trust_score (lat ! i) (pl ! i) (sf ! i) (bn ! i) (sic ! i) (cc ! i) (ec ! i)"
  using assms
  by (simp_all add: trust_score_series_def trust_score_def series_add_def
      scalar_mul_series_def scalar_sub_series_def)

lemma series_div_scalar_nth:
  assumes "i < length bl"
  shows "i < length (series_div_scalar bl 100)"
    and "series_div_scalar bl 100 ! i = battery_level_norm (bl ! i)"
  using assms by (simp_all add: series_div_scalar_def battery_level_norm_def)

lemma series_mul_nth:
  assumes "i < length ci" "i < length cs"
  shows "i < length (series_mul ci cs)"
    and "series_mul ci cs ! i = scale_intensity_centrality (ci ! i) (cs ! i)"
  using assms by (simp_all add: series_mul_def scale_intensity_centrality_def)

text \<open>
  C1. In every row whose seven normalised raw fields lie between 0 and 1 and whose battery
  level lies between 0 and 100, feature engineering succeeds, the derived Battery Level Norm
  is the battery level divided by 100 and lies between 0 and 1, and the derived Trust Score
  is the weighted sum of the source's formula and lies between 0 and 1. The bounds hold for
  the binary64 results, not only for the exact sums.
\<close>

theorem derived_fields_in_unit_interval:
  assumes "valid_row df i"
  shows "\<exists>df' bl ci cs lat pl sf cc ec.
     feature_engineering df = Inr df'
     \<and> cell df ''Battery Level'' i = Some bl
     \<and> cell df ''Communication Intensity'' i = Some ci
     \<and> cell df ''Communication Scale'' i = Some cs
     \<and> cell df ''Latency'' i = Some lat
     \<and> cell df ''Packet Loss'' i = Some pl
     \<and> cell df ''Sensor Functionality'' i = Some sf
     \<and> cell df ''Closeness Centrality'' i = Some cc
     \<and> cell df ''Eigenvector Centrality'' i = Some ec
     \<and> cell df' ''Battery Level Norm'' i = Some (battery_level_norm bl)
     \<and> 0 \<le> battery_level_norm bl \<and> battery_level_norm bl \<le> 1
     \<and> cell df' ''Trust Score'' i =
         Some (trust_score lat pl sf (battery_level_norm bl)
                 (scale_intensity_centrality ci cs) cc ec)
     \<and> 0 \<le> trust_score lat pl sf (battery_level_norm bl)
                 (scale_intensity_centrality ci cs) cc ec
     \<and> trust_score lat pl sf (battery_level_norm bl)
                 (scale_intensity_centrality ci cs) cc ec \<le> 1"
proof -
  from assms obtain lat where lat: "getitem df ''Latency'' = Inr lat" "i < length lat"
    "0 \<le> lat ! i" "lat ! i \<le> 1"
    unfolding valid_row_def in_range_iff by blast
  from assms obtain pl where pl: "getitem df ''Packet Loss'' = Inr pl" "i < length pl"
    "0 \<le> pl ! i" "pl ! i \<le> 1"
    unfolding valid_row_def in_range_iff by blast
  from assms obtain sf where sf: "getitem df ''Sensor Functionality'' = Inr sf"
    "i < length sf" "0 \<le> sf ! i" "sf ! i \<le> 1"
    unfolding valid_row_def in_range_iff by blast
  from assms obtain cc where cc: "getitem df ''Closeness Centrality'' = Inr cc"
    "i < length cc" "0 \<le> cc ! i" "cc ! i \<le> 1"
    unfolding valid_row_def in_range_iff by blast
  from assms obtain ec where ec: "getitem df ''Eigenvector Centrality'' = Inr ec"
    "i < length ec" "0 \<le> ec ! i" "ec ! i \<le> 1"
    unfolding valid_row_def in_range_iff by blast
  from assms obtain ci where ci: "getitem df ''Communication Intensity'' = Inr ci"
    "i < length ci" "0 \<le> ci ! i" "ci ! i \<le> 1"
    unfolding valid_row_def in_range_iff by blast
  from assms obtain cs where cs: "getitem df ''Communication Scale'' = Inr cs"
    "i < length cs" "0 \<le> cs ! i" "cs ! i \<le> 1"
    unfolding valid_row_def in_range_iff by blast
  from assms obtain bl where bl: "getitem df ''Battery Level'' = Inr bl"
    "i < length bl" "0 \<le> bl ! i" "bl ! i \<le> 100"
    unfolding valid_row_def in_range_iff by blast
  define bn where "bn = series_div_scalar bl 100"
  define sic where "sic = series_mul ci cs"
  define ts where "ts = trust_score_series lat pl sf bn sic cc ec"
  define df' where "df' = setitem (setitem (setitem df ''Battery Level Norm'' bn)
    ''Scale-Intensity Centrality'' sic) ''Trust Score'' ts"
  have fe: "feature_engineering df = Inr df'"
    unfolding df'_def ts_def bn_def sic_def
    by (rule feature_engineering_success) fact+
  have bn: "i < length bn" "bn ! i = battery_level_norm (bl ! i)"
    using series_div_scalar_nth [OF bl(2)] by (simp_all add: bn_def)
  have sic: "i < length sic" "sic ! i = scale_intensity_centrality (ci ! i) (cs ! i)"
    using series_mul_nth [OF ci(2) cs(2)] by (simp_all add: sic_def)
  have ts: "i < length ts"
    "ts ! i = trust_score (lat ! i) (pl ! i) (sf ! i) (battery_level_norm (bl ! i))
       (scale_intensity_centrality (ci ! i) (cs ! i)) (cc ! i) (ec ! i)"
    using trust_score_series_nth [OF lat(2) pl(2) sf(2) bn(1) sic(1) cc(2) ec(2)]
    by (simp_all add: ts_def bn(2) sic(2))
  have c_bn: "cell df' ''Battery Level Norm'' i = Some (battery_level_norm (bl ! i))"
    unfolding cell_Some_iff df'_def using bn by (simp add: getitem_setitem)
  have c_ts: "cell df' ''Trust Score'' i =
      Some (trust_score (lat ! i) (pl ! i) (sf ! i) (battery_level_norm (bl ! i))
       (scale_intensity_centrality (ci ! i) (cs ! i)) (cc ! i) (ec ! i))"
    unfolding cell_Some_iff df'_def using ts by (simp add: getitem_setitem)
  have r_bn: "0 \<le> battery_level_norm (bl ! i)" "battery_level_norm (bl ! i) \<le> 1"
    using battery_level_norm_bounds [OF bl(3,4)] by simp_all
  have r_sic: "0 \<le> scale_intensity_centrality (ci ! i) (cs ! i)"
    "scale_intensity_centrality (ci ! i) (cs ! i) \<le> 1"
    using scale_intensity_centrality_bounds [OF ci(3,4) cs(3,4)] by simp_all
  have r_ts: "0 \<le> trust_score (lat ! i) (pl ! i) (sf ! i) (battery_level_norm (bl ! i))
       (scale_intensity_centrality (ci ! i) (cs ! i)) (cc ! i) (ec ! i)"
    "trust_score (lat ! i) (pl ! i) (sf ! i) (battery_level_norm (bl ! i))
       (scale_intensity_centrality (ci ! i) (cs ! i)) (cc ! i) (ec ! i) \<le> 1"
    using trust_score_bounds [OF lat(3,4) pl(3,4) sf(3,4) r_bn r_sic cc(3,4) ec(3,4)]
    by simp_all
  have cells: "cell df ''Battery Level'' i = Some (bl ! i)"
    "cell df ''Communication Intensity'' i = Some (ci ! i)"
    "cell df ''Communication Scale'' i = Some (cs ! i)"
    "cell df ''Latency'' i = Some (lat ! i)"
    "cell df ''Packet Loss'' i = Some (pl ! i)"
    "cell df ''Sensor Functionality'' i = Some (sf ! i)"
    "cell df ''Closeness Centrality'' i = Some (cc ! i)"
    "cell df ''Eigenvector Centrality'' i = Some (ec ! i)"
    unfolding cell_Some_iff using bl ci cs lat pl sf cc ec by simp_all
  from fe cells c_bn c_ts r_bn r_ts show ?thesis
    by blast
qed

theorem derived_fields_in_unit_interval_witness:
  "valid_row telemetry 1
   \<and> (\<exists>df' bl ci cs lat pl sf cc ec.
     feature_engineering telemetry = Inr df'
     \<and> cell telemetry ''Battery Level'' 1 = Some bl
     \<and> cell telemetry ''Communication Intensity'' 1 = Some ci
     \<and> cell telemetry ''Communication Scale'' 1 = Some cs
     \<and> cell telemetry ''Latency'' 1 = Some lat
     \<and> cell telemetry ''Packet Loss'' 1 = Some pl
     \<and> cell telemetry ''Sensor Functionality'' 1 = Some sf
     \<and> cell telemetry ''Closeness Centrality'' 1 = Some cc
     \<and> cell telemetry ''Eigenvector Centrality'' 1 = Some ec
     \<and> cell df' ''Battery Level Norm'' 1 = Some (battery_level_norm bl)
     \<and> 0 \<le> battery_level_norm bl \<and> battery_level_norm bl \<le> 1
     \<and> cell df' ''Trust Score'' 1 =
         Some (trust_score lat pl sf (battery_level_norm bl)
                 (scale_intensity_centrality ci cs) cc ec)
     \<and> 0 \<le> trust_score lat pl sf (battery_level_norm bl)
                 (scale_intensity_centrality ci cs) cc ec
     \<and> trust_score lat pl sf (battery_level_norm bl)
                 (scale_intensity_centrality ci cs) cc ec \<le> 1)"
proof -
  have v: "valid_row telemetry 1"
    by (simp add: valid_row_def in_range_def cell_def telemetry_def)
  from v derived_fields_in_unit_interval [OF v] show ?thesis
    by (rule conjI)
qed

subsection \<open>Rows and columns kept by feature engineering\<close>

lemma getitem_present: "c \<in> set (columns df) \<Longrightarrow> \<exists>s. getitem df c = Inr s"
  by (cases "map_of df c") (auto simp: getitem_def columns_def map_of_eq_None_iff)

lemma columns_setitem:
  "columns (setitem df k v) = (if k \<in> set (columns df) then columns df else columns df @ [k])"
  by (simp add: columns_def setitem_def update_keys)

lemma nrows_ok_update:
  "list_all P al \<Longrightarrow> P (k, v) \<Longrightarrow> list_all P (AList.update k v al)"
  by (induction al) auto

lemma nrows_ok_setitem: "nrows_ok n df \<Longrightarrow> length v = n \<Longrightarrow> nrows_ok n (setitem df k v)"
  unfolding nrows_ok_def setitem_def by (rule nrows_ok_update) simp_all

lemma nrows_ok_getitem:
  assumes "nrows_ok n df" and "getitem df c = Inr s"
  shows "length s = n"
proof -
  from assms(2) have "map_of df c = Some s"
    by (simp add: getitem_def split: option.splits)
  then have "(c, s) \<in> set df"
    by (rule map_of_SomeD)
  with assms(1) show ?thesis
    by (auto simp: nrows_ok_def list_all_iff)
qed

lemma trust_score_series_length:
  assumes "length lat = n" "length pl = n" "length sf = n" "length bn = n"
    and "length sic = n" "length cc = n" "length ec = n"
  shows "length (trust_score_series lat pl sf bn sic cc ec) = n"
  using assms
  by (simp add: trust_score_series_def series_add_def scalar_mul_series_def
      scalar_sub_series_def)

text \<open>
  C9 (as amended). On every table that has the eight raw columns, with \<open>n\<close> rows in every
  column, feature engineering succeeds and returns a table that depends on the input only.
  It has \<open>n\<close> rows in every column; every column whose name is not one of the three derived
  names is returned unchanged, so no row is dropped, added or reordered; and the column names
  are those of the input, in their order, followed by the derived names the input lacked. The
  three derived columns hold the derived values, computed row by row from the raw columns of
  the input, whether or not the input already had a column of that name: such a column is
  overwritten in place.
\<close>

theorem feature_engineering_frame:
  assumes "set raw_columns \<subseteq> set (columns df)" and "nrows_ok n df"
  shows "\<exists>df' bl ci cs lat pl sf cc ec.
      feature_engineering df = Inr df'
    \<and> getitem df ''Battery Level'' = Inr bl
    \<and> getitem df ''Communication Intensity'' = Inr ci
    \<and> getitem df ''Communication Scale'' = Inr cs
    \<and> getitem df ''Latency'' = Inr lat
    \<and> getitem df ''Packet Loss'' = Inr pl
    \<and> getitem df ''Sensor Functionality'' = Inr sf
    \<and> getitem df ''Closeness Centrality'' = Inr cc
    \<and> getitem df ''Eigenvector Centrality'' = Inr ec
    \<and> nrows_ok n df'
    \<and> (\<forall>c. c \<notin> set derived_columns \<longrightarrow> getitem df' c = getitem df c)
    \<and> columns df' = columns df @ filter (\<lambda>c. c \<notin> set (columns df)) derived_columns
    \<and> getitem df' ''Battery Level Norm'' = Inr (series_div_scalar bl 100)
    \<and> getitem df' ''Scale-Intensity Centrality'' = Inr (series_mul ci cs)
    \<and> getitem df' ''Trust Score''
        = Inr (trust_score_series lat pl sf (series_div_scalar bl 100) (series_mul ci cs)
                 cc ec)
    \<and> (\<forall>i < n.
          cell df' ''Battery Level Norm'' i = Some (battery_level_norm (bl ! i))
        \<and> cell df' ''Scale-Intensity Centrality'' i
            = Some (scale_intensity_centrality (ci ! i) (cs ! i))
        \<and> cell df' ''Trust Score'' i
            = Some (trust_score (lat ! i) (pl ! i) (sf ! i) (battery_level_norm (bl ! i))
                      (scale_intensity_centrality (ci ! i) (cs ! i)) (cc ! i) (ec ! i)))"
proof -
  have "\<forall>c \<in> set raw_columns. \<exists>s. getitem df c = Inr s"
    using assms(1) getitem_present by blast
  then obtain bl ci cs lat pl sf cc ec where raw:
    "getitem df ''Battery Level'' = Inr bl"
    "getitem df ''Communication Intensity'' = Inr ci"
    "getitem df ''Communication Scale'' = Inr cs"
    "getitem df ''Latency'' = Inr lat"
    "getitem df ''Packet Loss'' = Inr pl"
    "getitem df ''Sensor Functionality'' = Inr sf"
    "getitem df ''Closeness Centrality'' = Inr cc"
    "getitem df ''Eigenvector Centrality'' = Inr ec"
    unfolding raw_columns_def by (simp only: list.set ball_simps) blast
  define bn where "bn = series_div_scalar bl 100"
  define sic where "sic = series_mul ci cs"
  define ts where "ts = trust_score_series lat pl sf bn sic cc ec"
  define df' where "df' = setitem (setitem (setitem df ''Battery Level Norm'' bn)
    ''Scale-Intensity Centrality'' sic) ''Trust Score'' ts"
  have fe: "feature_engineering df = Inr df'"
    unfolding df'_def ts_def bn_def sic_def
    by (rule feature_engineering_success) fact+
  have len: "length bl = n" "length ci = n" "length cs = n" "length lat = n"
    "length pl = n" "length sf = n" "length cc = n" "length ec = n"
    using raw nrows_ok_getitem [OF assms(2)] by blast+
  have l_bn: "length bn = n"
    by (simp add: bn_def series_div_scalar_def len)
  have l_sic: "length sic = n"
    by (simp add: sic_def series_mul_def len)
  have l_ts: "length ts = n"
    unfolding ts_def by (rule trust_score_series_length) (simp_all add: len l_bn l_sic)
  have rows: "nrows_ok n df'"
    unfolding df'_def by (intro nrows_ok_setitem assms(2) l_bn l_sic l_ts)
  have frame: "\<forall>c. c \<notin> set derived_columns \<longrightarrow> getitem df' c = getitem df c"
    by (simp add: df'_def derived_columns_def getitem_setitem)
  have cols: "columns df' = columns df @ filter (\<lambda>c. c \<notin> set (columns df)) derived_columns"
    by (simp add: df'_def derived_columns_def columns_setitem)
  have held: "getitem df' ''Battery Level Norm'' = Inr bn"
    "getitem df' ''Scale-Intensity Centrality'' = Inr sic"
    "getitem df' ''Trust Score'' = Inr ts"
    by (simp_all add: df'_def getitem_setitem)
  have cells: "cell df' ''Battery Level Norm'' i = Some (battery_level_norm (bl ! i))
        \<and> cell df' ''Scale-Intensity Centrality'' i
            = Some (scale_intensity_centrality (ci ! i) (cs ! i))
        \<and> cell df' ''Trust Score'' i
            = Some (trust_score (lat ! i) (pl ! i) (sf ! i) (battery_level_norm (bl ! i))
                      (scale_intensity_centrality (ci ! i) (cs ! i)) (cc ! i) (ec ! i))"
    if i: "i < n" for i
  proof -
    have b: "i < length bn" "bn ! i = battery_level_norm (bl ! i)"
      using series_div_scalar_nth [of i bl] i by (simp_all add: bn_def len)
    have s: "i < length sic" "sic ! i = scale_intensity_centrality (ci ! i) (cs ! i)"
      using series_mul_nth [of i ci cs] i by (simp_all add: sic_def len)
    have t: "i < length ts"
      "ts ! i = trust_score (lat ! i) (pl ! i) (sf ! i) (battery_level_norm (bl ! i))
         (scale_intensity_centrality (ci ! i) (cs ! i)) (cc ! i) (ec ! i)"
      using trust_score_series_nth [of i lat pl sf bn sic cc ec] i b s
      by (simp_all add: ts_def len)
    show ?thesis
      unfolding cell_Some_iff using held b s t by simp
  qed
  from fe raw rows frame cols held cells show ?thesis
    unfolding bn_def sic_def ts_def by blast
qed

lemma trust_score_max: "trust_score 0 0 1 1 1 1 1 = 1"
  unfolding trust_score_def fsub_def fmul_def lit_0_2 lit_0_1
  by (simp only: diff_zero mult_1_right fl_one fl_0_2 fl_0_1 partial_sums)

lemma rescored_eval: "feature_engineering rescored = Inr rescored_derived"
proof -
  have g: "getitem rescored ''Battery Level'' = Inr [100]"
    "getitem rescored ''Communication Intensity'' = Inr [1]"
    "getitem rescored ''Communication Scale'' = Inr [1]"
    "getitem rescored ''Latency'' = Inr [0]"
    "getitem rescored ''Packet Loss'' = Inr [0]"
    "getitem rescored ''Sensor Functionality'' = Inr [1]"
    "getitem rescored ''Closeness Centrality'' = Inr [1]"
    "getitem rescored ''Eigenvector Centrality'' = Inr [1]"
    by (simp_all add: getitem_def rescored_def)
  have bn: "series_div_scalar [100] 100 = [1]"
    by (simp add: series_div_scalar_def fl_one)
  have sic: "series_mul [1] [1] = [1]"
    by (simp add: series_mul_def fmul_def fl_one)
  have "trust_score_series [0] [0] [1] [1] [1] [1] [1] = [trust_score 0 0 1 1 1 1 1]"
    by (simp add: trust_score_series_def trust_score_def series_add_def
        scalar_mul_series_def scalar_sub_series_def)
  then have ts: "trust_score_series [0] [0] [1] [1] [1] [1] [1] = [1]"
    by (simp only: trust_score_max)
  have "setitem (setitem (setitem rescored ''Battery Level Norm'' [1])
      ''Scale-Intensity Centrality'' [1]) ''Trust Score'' [1] = rescored_derived"
    by (simp add: setitem_def rescored_def rescored_derived_def)
  then show ?thesis
    using feature_engineering_success [OF g] by (simp only: bn sic ts)
qed

theorem feature_engineering_frame_witness:
  "set raw_columns \<subseteq> set (columns telemetry) \<and> nrows_ok 3 telemetry
   \<and> (\<exists>df' bl ci cs lat pl sf cc ec.
      feature_engineering telemetry = Inr df'
    \<and> getitem telemetry ''Battery Level'' = Inr bl
    \<and> getitem telemetry ''Communication Intensity'' = Inr ci
    \<and> getitem telemetry ''Communication Scale'' = Inr cs
    \<and> getitem telemetry ''Latency'' = Inr lat
    \<and> getitem telemetry ''Packet Loss'' = Inr pl
    \<and> getitem telemetry ''Sensor Functionality'' = Inr sf
    \<and> getitem telemetry ''Closeness Centrality'' = Inr cc
    \<and> getitem telemetry ''Eigenvector Centrality'' = Inr ec
    \<and> nrows_ok 3 df'
    \<and> (\<forall>c. c \<notin> set derived_columns \<longrightarrow> getitem df' c = getitem telemetry c)
    \<and> columns df' = columns telemetry @ filter (\<lambda>c. c \<notin> set (columns telemetry)) derived_columns
    \<and> getitem df' ''Battery Level Norm'' = Inr (series_div_scalar bl 100)
    \<and> getitem df' ''Scale-Intensity Centrality'' = Inr (series_mul ci cs)
    \<and> getitem df' ''Trust Score''
        = Inr (trust_score_series lat pl sf (series_div_scalar bl 100) (series_mul ci cs)
                 cc ec)
    \<and> (\<forall>i < 3.
          cell df' ''Battery Level Norm'' i = Some (battery_level_norm (bl ! i))
        \<and> cell df' ''Scale-Intensity Centrality'' i
            = Some (scale_intensity_centrality (ci ! i) (cs ! i))
        \<and> cell df' ''Trust Score'' i
            = Some (trust_score (lat ! i) (pl ! i) (sf ! i) (battery_level_norm (bl ! i))
                      (scale_intensity_centrality (ci ! i) (cs ! i)) (cc ! i) (ec ! i))))"
proof -
  have a: "set raw_columns \<subseteq> set (columns telemetry)"
    by (simp add: raw_columns_def columns_def telemetry_def)
  have b: "nrows_ok 3 telemetry"
    by (simp add: nrows_ok_def telemetry_def)
  from a b feature_engineering_frame [OF a b] show ?thesis
    by (intro conjI)
qed

text \<open>
  The claim as stated fails on a table that already has a column named Trust Score: the
  column held 0.5 and holds 1.0 after feature engineering.
\<close>

theorem preexisting_column_overwritten:
  "set raw_columns \<subseteq> set (columns rescored)
   \<and> getitem rescored ''Trust Score'' = Inr [1 / 2]
   \<and> feature_engineering rescored = Inr rescored_derived
   \<and> getitem rescored_derived ''Trust Score'' = Inr [1]"
  by (simp add: rescored_eval)
    (simp add: raw_columns_def columns_def rescored_def rescored_derived_def getitem_def)

section \<open>The classification notebook\<close>

subsection \<open>Loops and confusion matrices\<close>

lemma state_of_simps [simp]: "state_of (Done s) = s" "state_of (Raised e s) = s"
  by (simp_all add: state_of_def)

lemma for_each_preserves:
  assumes "P s" and "\<And>s x. P s \<Longrightarrow> x \<in> set xs \<Longrightarrow> P (state_of (body s x))"
  shows "P (state_of (for_each body s xs))"
  using assms
proof (induction xs arbitrary: s)
  case Nil
  then show ?case
    by simp
next
  case (Cons x xs)
  have step: "P (state_of (body s x))"
    using Cons.prems by simp
  show ?case
  proof (cases "body s x")
    case (Done s')
    with step have "P s'"
      by simp
    then have "P (state_of (for_each body s' xs))"
      using Cons.prems(2) by (intro Cons.IH) simp_all
    with Done show ?thesis
      by simp
  next
    case (Raised e s')
    with step show ?thesis
      by simp
  qed
qed

lemma binarize_length [simp]: "length (binarize vs) = length vs"
  by (simp add: binarize_def)

lemma binarize_range: "y \<in> set (binarize vs) \<Longrightarrow> y = 0 \<or> y = 1"
  by (auto simp: binarize_def)

lemma count_partition:
  fixes zs :: "(nat \<times> nat) list"
  assumes "\<forall>z \<in> set zs. (fst z = 0 \<or> fst z = 1) \<and> (snd z = 0 \<or> snd z = 1)"
  shows "length (filter (\<lambda>(a, b). a = 0 \<and> b = 0) zs)
       + length (filter (\<lambda>(a, b). a = 0 \<and> b = 1) zs)
       + length (filter (\<lambda>(a, b). a = 1 \<and> b = 0) zs)
       + length (filter (\<lambda>(a, b). a = 1 \<and> b = 1) zs) = length zs"
  using assms
proof (induction zs)
  case Nil
  then show ?case
    by simp
next
  case (Cons z zs)
  obtain a b where z: "z = (a, b)"
    by (cases z)
  from Cons.prems have ab: "a = 0 \<or> a = 1" "b = 0 \<or> b = 1"
    by (simp_all add: z)
  from Cons.prems have "\<forall>z \<in> set zs. (fst z = 0 \<or> fst z = 1) \<and> (snd z = 0 \<or> snd z = 1)"
    by simp
  from Cons.IH [OF this] ab show ?case
    by (auto simp: z)
qed

lemma zip_binarize_range:
  assumes "z \<in> set (zip (binarize ys) (binarize ps))"
  shows "(fst z = 0 \<or> fst z = 1) \<and> (snd z = 0 \<or> snd z = 1)"
proof -
  obtain a b where z: "z = (a, b)"
    by (cases z)
  from assms have "a \<in> set (binarize ys)" "b \<in> set (binarize ps)"
    unfolding z by (rule set_zip_leftD, rule set_zip_rightD)
  then show ?thesis
    using binarize_range [of a ys] binarize_range [of b ps] by (simp add: z)
qed

lemma confusion_matrix_total:
  assumes "confusion_matrix (binarize ys) (binarize ps) = Inr cm"
  shows "length ps = length ys"
    and "fst (fst cm) + snd (fst cm) + fst (snd cm) + snd (snd cm) = length ys"
proof -
  from assms show len: "length ps = length ys"
    by (simp add: confusion_matrix_def split: if_splits)
  have cm: "cm = ((count_pairs 0 0 (binarize ys) (binarize ps),
                   count_pairs 0 1 (binarize ys) (binarize ps)),
                  (count_pairs 1 0 (binarize ys) (binarize ps),
                   count_pairs 1 1 (binarize ys) (binarize ps)))"
    using assms by (simp add: confusion_matrix_def split: if_splits)
  have "\<forall>z \<in> set (zip (binarize ys) (binarize ps)).
      (fst z = 0 \<or> fst z = 1) \<and> (snd z = 0 \<or> snd z = 1)"
    using zip_binarize_range by blast
  from count_partition [OF this]
  show "fst (fst cm) + snd (fst cm) + fst (snd cm) + snd (snd cm) = length ys"
    by (simp add: cm count_pairs_def len)
qed

lemma n_unique_le_length: "n_unique ys \<le> length ys"
  by (simp add: n_unique_def length_remdups_leq)

lemma n_unique_binarize_le: "n_unique (binarize vs) \<le> 2"
proof -
  have "set (binarize vs) \<subseteq> {0, 1}"
    using binarize_range by auto
  then have "card (set (binarize vs)) \<le> card {0, 1 :: nat}"
    by (intro card_mono) simp_all
  then show ?thesis
    by (simp add: n_unique_def length_remdups_card_conv)
qed


lemma feature_engineering_keeps:
  assumes "feature_engineering df = Inr df'" and "c \<notin> set derived_columns"
  shows "getitem df' c = getitem df c"
  using assms
  by (auto simp: feature_engineering_def ebind_Inr_iff Let_def getitem_setitem
      derived_columns_def)

lemma load_scenario_Inr:
  assumes "load_scenario L path = Inr (df, y)"
  shows "\<exists>df0. read_csv L path = Inr df0 \<and> feature_engineering df0 = Inr df
    \<and> getitem df0 ''Swarm Coordination Rate'' = Inr y"
proof -
  from assms obtain df0 where r: "read_csv L path = Inr df0"
    and f: "feature_engineering df0 = Inr df"
    and g: "getitem df ''Swarm Coordination Rate'' = Inr y"
    by (auto simp: load_scenario_def ebind_Inr_iff)
  have "getitem df ''Swarm Coordination Rate'' = getitem df0 ''Swarm Coordination Rate''"
    using f by (rule feature_engineering_keeps) (simp add: derived_columns_def)
  with r f g show ?thesis
    by simp
qed

lemma collect_model_state:
  "state_of (collect_model attack yb s (m, preds)) =
     (case confusion_matrix yb (binarize preds) of
        Inl e \<Rightarrow> s
      | Inr cm \<Rightarrow> s\<lparr>conf_data := conf_data s @ [(attack, m, cm)]\<rparr>)"
  by (simp add: collect_model_def Let_def split: sum.splits)

lemma conf_data_provenance:
  assumes "(attack, model, cm) \<in> set (conf_data (state_of (collect_confusion L)))"
  shows "\<exists>path df0 df y_true ps preds.
     (attack, path) \<in> set file_paths \<and> read_csv L path = Inr df0
     \<and> feature_engineering df0 = Inr df
     \<and> getitem df0 ''Swarm Coordination Rate'' = Inr y_true
     \<and> 2 \<le> n_unique (binarize y_true)
     \<and> preds_dict L df (binarize y_true) = Inr ps \<and> (model, preds) \<in> set ps
     \<and> confusion_matrix (binarize y_true) (binarize preds) = Inr cm"
proof -
  let ?J = "\<lambda>a m c. \<exists>path df0 df y_true ps preds.
     (a, path) \<in> set file_paths \<and> read_csv L path = Inr df0
     \<and> feature_engineering df0 = Inr df
     \<and> getitem df0 ''Swarm Coordination Rate'' = Inr y_true
     \<and> 2 \<le> n_unique (binarize y_true)
     \<and> preds_dict L df (binarize y_true) = Inr ps \<and> (m, preds) \<in> set ps
     \<and> confusion_matrix (binarize y_true) (binarize preds) = Inr c"
  let ?P = "\<lambda>s. \<forall>a m c. (a, m, c) \<in> set (conf_data s) \<longrightarrow> ?J a m c"
  have step: "?P (state_of (process_scenario L s ap))"
    if P: "?P s" and mem: "ap \<in> set file_paths" for s ap
  proof -
    obtain a path where ap: "ap = (a, path)"
      by (cases ap)
    define s1 where "s1 = s\<lparr>stdout := stdout s @ [processing_msg a]\<rparr>"
    have P1: "?P s1"
      using P by (simp add: s1_def)
    show ?thesis
    proof (cases "load_scenario L path")
      case (Inl e)
      then show ?thesis
        using P1 by (simp add: ap process_scenario_def s1_def)
    next
      case (Inr r)
      obtain df y where r: "r = (df, y)"
        by (cases r)
      from Inr r obtain df0 where src: "read_csv L path = Inr df0"
        "feature_engineering df0 = Inr df" "getitem df0 ''Swarm Coordination Rate'' = Inr y"
        using load_scenario_Inr by blast
      show ?thesis
      proof (cases "n_unique (binarize y) < 2")
        case True
        then show ?thesis
          using P1 Inr r by (simp add: ap process_scenario_def s1_def)
      next
        case False
        then have two: "2 \<le> n_unique (binarize y)"
          by simp
        show ?thesis
        proof (cases "preds_dict L df (binarize y)")
          case (Inl e)
          then show ?thesis
            using P1 Inr r False by (simp add: ap process_scenario_def s1_def)
        next
          case ps: (Inr ps)
          have inner: "?P (state_of (collect_model a (binarize y) t mp))"
            if Pt: "?P t" and mp: "mp \<in> set ps" for t mp
          proof -
            obtain m preds where mpp: "mp = (m, preds)"
              by (cases mp)
            show ?thesis
            proof (cases "confusion_matrix (binarize y) (binarize preds)")
              case (Inl e)
              then show ?thesis
                using Pt by (simp add: mpp collect_model_state)
            next
              case (Inr c)
              have "?J a m c"
                using mem ap src two ps mp mpp Inr by blast
              then show ?thesis
                using Pt Inr by (auto simp: mpp collect_model_state)
            qed
          qed
          have "?P (state_of (for_each (collect_model a (binarize y)) s1 ps))"
            using P1 inner by (rule for_each_preserves)
          then show ?thesis
            using Inr r False ps by (simp add: ap process_scenario_def s1_def)
        qed
      qed
    qed
  qed
  have "?P \<lparr>stdout = [], conf_data = []\<rparr>"
    by simp
  then have "?P (state_of (collect_confusion L))"
    unfolding collect_confusion_def using step by (rule for_each_preserves)
  with assms show ?thesis
    by blast
qed

lemma lit_0_85: "lit (85 / 100) = 7656119366529843 / 9007199254740992"
  by code_simp

lemma binarize_Cons:
  "binarize (v # vs) = (if 7656119366529843 / 9007199254740992 \<le> v then 1 else 0) # binarize vs"
  "binarize [] = []"
  unfolding binarize_def lit_0_85 by simp_all

lemma file_paths_unique:
  "(a, p) \<in> set file_paths \<Longrightarrow> (a, p') \<in> set file_paths \<Longrightarrow> p = p'"
  by (auto simp: file_paths_def)

lemma fl_ge_one: "1 \<le> x \<Longrightarrow> 1 \<le> fl x"
  using fl_mono [of 1 x] by (simp add: fl_one)

lemma np_divide_Some:
  assumes "0 < b"
  shows "np_divide a b = Some (fl (fl (of_nat a) / fl (of_nat b)))"
proof -
  have "1 \<le> fl (of_nat b)"
    using assms by (intro fl_ge_one) (simp add: Suc_le_eq)
  then show ?thesis
    by (simp add: np_divide_def fdiv_def)
qed

lemma np_round_zero: "np_round n 0 = 0"
  by (simp add: np_round_def fl_zero rint_def)

subsection \<open>The notebook on the stand-in libraries\<close>

lemma telemetry_getitem:
  "getitem telemetry ''Battery Level'' = Inr [100, 87, 64]"
  "getitem telemetry ''Communication Intensity'' = Inr [1, 1 / 2, 3 / 4]"
  "getitem telemetry ''Communication Scale'' = Inr [1, 1 / 4, 1 / 2]"
  "getitem telemetry ''Latency'' = Inr [0, 1 / 4, 1 / 8]"
  "getitem telemetry ''Packet Loss'' = Inr [0, 1 / 8, 1 / 16]"
  "getitem telemetry ''Sensor Functionality'' = Inr [1, 3 / 4, 1]"
  "getitem telemetry ''Closeness Centrality'' = Inr [1, 1 / 2, 1 / 4]"
  "getitem telemetry ''Eigenvector Centrality'' = Inr [1, 1 / 2, 1 / 4]"
  "getitem telemetry ''Relative Speed'' = Inr [3, 5, 4]"
  "getitem telemetry ''Location Accuracy'' = Inr [1, 1 / 2, 3 / 4]"
  "getitem telemetry ''Swarm Coordination Rate'' = Inr [7 / 8, 3 / 4, 15 / 16]"
  by (simp_all add: getitem_def telemetry_def)

lemma steady_getitem:
  "getitem steady ''Swarm Coordination Rate'' = Inr [15 / 16, 7 / 8, 15 / 16]"
  "c \<noteq> ''Swarm Coordination Rate'' \<Longrightarrow> getitem steady c = getitem telemetry c"
  by (simp_all add: steady_def getitem_setitem)


lemma feature_engineering_Inr_features:
  assumes "feature_engineering df0 = Inr df"
    and "getitem df0 ''Relative Speed'' = Inr rs"
    and "getitem df0 ''Location Accuracy'' = Inr la"
  shows "list_all (\<lambda>c. \<exists>s. getitem df c = Inr s) features"
  using assms
  by (auto simp: feature_engineering_def ebind_Inr_iff Let_def getitem_setitem features_def)

lemma select_columns_present:
  assumes "list_all (\<lambda>c. \<exists>s. getitem df c = Inr s) cs"
  shows "\<exists>X. select_columns df cs = Inr X
    \<and> (\<forall>c \<in> set cs. getitem X c = getitem df c)"
  using assms
proof (induction cs)
  case Nil
  then show ?case
    by simp
next
  case (Cons c cs)
  then obtain s X where s: "getitem df c = Inr s" and X: "select_columns df cs = Inr X"
    and keep: "\<forall>c \<in> set cs. getitem X c = getitem df c"
    by auto
  have "select_columns df (c # cs) = Inr ((c, s) # X)"
    by (simp add: s X)
  moreover have "\<forall>c' \<in> set (c # cs). getitem ((c, s) # X) c' = getitem df c'"
    using keep s by (auto simp: getitem_def)
  ultimately show ?case
    by blast
qed

lemma concat_singletons: "concat (map (\<lambda>r. [c]) xs) = map (\<lambda>r. c) xs"
  by (induction xs) simp_all

lemma train_test_split_demo:
  assumes "length X = length y" and "length y - (length y + 4) div 5 \<noteq> 0"
  shows "\<exists>Xt yt. train_test_split demo X y = Inr (Xt, yt)"
  using assms by (simp add: train_test_split_def demo_def)

lemma preds_dict_demo:
  assumes "list_all (\<lambda>c. \<exists>s. getitem df c = Inr s) features"
    and "getitem df ''Closeness Centrality'' = Inr cc"
    and "length cc = length yb" and "length yb - (length yb + 4) div 5 \<noteq> 0"
  shows "preds_dict demo df yb =
    Inr [(''Random Forest'', map (\<lambda>v. 0) cc), (''SVM'', map (\<lambda>v. 1) cc),
         (''CNN'', map (\<lambda>v. 15 / 16) cc)]"
proof -
  from select_columns_present [OF assms(1)] obtain X
    where X: "select_columns df features = Inr X"
      and keep: "\<forall>c \<in> set features. getitem X c = getitem df c"
    by blast
  have "getitem X ''Closeness Centrality'' = Inr cc"
    using keep assms(2) by (simp add: features_def)
  then have sc: "fit_transform demo X = Inr (map (\<lambda>v. [v]) cc)"
    by (simp add: demo_def getitem_def split: option.splits)
  obtain Xt yt where s1: "train_test_split (demo :: nat library) (map (\<lambda>v. [v]) cc) yb = Inr (Xt, yt)"
    using train_test_split_demo [of "map (\<lambda>v. [v]) cc" yb] assms(3,4) by auto
  obtain Xr yr where s2:
    "train_test_split (demo :: nat library) (reshape (map (\<lambda>v. [v]) cc)) yb = Inr (Xr, yr)"
    using train_test_split_demo [of "reshape (map (\<lambda>v. [v]) cc)" yb] assms(3,4)
    by (auto simp: reshape_def)
  have rf: "model_rf demo Xt yt (map (\<lambda>v. [v]) cc) = Inr (map (\<lambda>v. 0) cc)"
    by (simp add: model_rf_def demo_def comp_def)
  have svm: "model_svm demo Xt yt (map (\<lambda>v. [v]) cc) = Inr (map (\<lambda>v. 1) cc)"
    by (simp add: model_svm_def demo_def comp_def)
  have cnn: "model_cnn demo Xr yr (reshape (map (\<lambda>v. [v]) cc)) = Inr (map (\<lambda>v. 15 / 16) cc)"
    by (simp add: model_cnn_def demo_def reshape_def comp_def concat_singletons)
  show ?thesis
    by (simp add: preds_dict_def X sc Let_def s1 s2 rf svm cnn)
qed

lemma load_scenario_demo:
  "\<exists>df. load_scenario demo ''C:/Users/Documents/AirSim/drone_simulation_log_critical_node.csv''
        = Inr (df, [7 / 8, 3 / 4, 15 / 16])
     \<and> list_all (\<lambda>c. \<exists>s. getitem df c = Inr s) features
     \<and> getitem df ''Closeness Centrality'' = Inr [1, 1 / 2, 1 / 4]"
proof -
  obtain df where fe: "feature_engineering telemetry = Inr df"
    using feature_engineering_success [OF telemetry_getitem(1-8)] by blast
  have keep: "getitem df ''Swarm Coordination Rate'' = Inr [7 / 8, 3 / 4, 15 / 16]"
    "getitem df ''Closeness Centrality'' = Inr [1, 1 / 2, 1 / 4]"
    using feature_engineering_keeps [OF fe] telemetry_getitem
    by (simp_all add: derived_columns_def)
  have "load_scenario demo ''C:/Users/Documents/AirSim/drone_simulation_log_critical_node.csv''
      = Inr (df, [7 / 8, 3 / 4, 15 / 16])"
    by (simp add: load_scenario_def demo_def fe keep)
  moreover have "list_all (\<lambda>c. \<exists>s. getitem df c = Inr s) features"
    using fe telemetry_getitem(9,10) by (rule feature_engineering_Inr_features)
  ultimately show ?thesis
    using keep by blast
qed

lemma load_scenario_demo_steady:
  assumes "path \<noteq> ''C:/Users/Documents/AirSim/drone_simulation_log_critical_node.csv''"
  shows "\<exists>df. load_scenario demo path = Inr (df, [15 / 16, 7 / 8, 15 / 16])"
proof -
  have g: "getitem steady ''Battery Level'' = Inr [100, 87, 64]"
    "getitem steady ''Communication Intensity'' = Inr [1, 1 / 2, 3 / 4]"
    "getitem steady ''Communication Scale'' = Inr [1, 1 / 4, 1 / 2]"
    "getitem steady ''Latency'' = Inr [0, 1 / 4, 1 / 8]"
    "getitem steady ''Packet Loss'' = Inr [0, 1 / 8, 1 / 16]"
    "getitem steady ''Sensor Functionality'' = Inr [1, 3 / 4, 1]"
    "getitem steady ''Closeness Centrality'' = Inr [1, 1 / 2, 1 / 4]"
    "getitem steady ''Eigenvector Centrality'' = Inr [1, 1 / 2, 1 / 4]"
    by (simp_all add: steady_getitem telemetry_getitem)
  obtain df where fe: "feature_engineering steady = Inr df"
    using feature_engineering_success [OF g] by blast
  have "getitem df ''Swarm Coordination Rate'' = Inr [15 / 16, 7 / 8, 15 / 16]"
    using feature_engineering_keeps [OF fe] steady_getitem(1)
    by (simp add: derived_columns_def)
  then have "load_scenario demo path = Inr (df, [15 / 16, 7 / 8, 15 / 16])"
    using assms by (simp add: load_scenario_def demo_def fe)
  then show ?thesis
    by blast
qed

lemma confusion_matrix_demo:
  "confusion_matrix [1, 0, 1] [0, 0, 0] = Inr ((1, 0), (2, 0))"
  "confusion_matrix [1, 0, 1] [1, 1, 1] = Inr ((0, 1), (0, 2))"
  by (simp_all add: confusion_matrix_def count_pairs_def)

lemma process_scenario_demo:
  "process_scenario demo s
     (a, ''C:/Users/Documents/AirSim/drone_simulation_log_critical_node.csv'') =
   Done (s\<lparr>stdout := stdout s @ [processing_msg a],
           conf_data := conf_data s @
             [(a, ''Random Forest'', ((1, 0), (2, 0))), (a, ''SVM'', ((0, 1), (0, 2))),
              (a, ''CNN'', ((0, 1), (0, 2)))]\<rparr>)"
proof -
  from load_scenario_demo obtain df where
    ld: "load_scenario (demo :: nat library)
          ''C:/Users/Documents/AirSim/drone_simulation_log_critical_node.csv''
        = Inr (df, [7 / 8, 3 / 4, 15 / 16])"
    and ft: "list_all (\<lambda>c. \<exists>s. getitem df c = Inr s) features"
    and cc: "getitem df ''Closeness Centrality'' = Inr [1, 1 / 2, 1 / 4]"
    by blast
  have yb: "binarize [7 / 8, 3 / 4, 15 / 16] = [1, 0, 1]"
    by (simp add: binarize_Cons)
  have nu: "\<not> n_unique [1, 0, 1] < 2"
    by (simp add: n_unique_def)
  have pd: "preds_dict demo df [1, 0, 1] =
    Inr [(''Random Forest'', [0, 0, 0]), (''SVM'', [1, 1, 1]),
         (''CNN'', [15 / 16, 15 / 16, 15 / 16])]"
    using preds_dict_demo [OF ft cc, of "[1, 0, 1]"] by simp
  have bp: "binarize [0, 0, 0] = [0, 0, 0]" "binarize [1, 1, 1] = [1, 1, 1]"
    "binarize [15 / 16, 15 / 16, 15 / 16] = [1, 1, 1]"
    by (simp_all add: binarize_Cons)
  show ?thesis
    by (simp only: process_scenario_def prod.case Let_def ld sum.case yb nu if_False pd
        for_each.simps collect_model_def bp confusion_matrix_demo outcome.case) simp
qed

lemma process_scenario_demo_steady:
  assumes "path \<noteq> ''C:/Users/Documents/AirSim/drone_simulation_log_critical_node.csv''"
  shows "process_scenario demo s (a, path) =
    Done (s\<lparr>stdout := stdout s @ [processing_msg a, skipping_msg a]\<rparr>)"
proof -
  from load_scenario_demo_steady [OF assms] obtain df where
    ld: "load_scenario (demo :: nat library) path = Inr (df, [15 / 16, 7 / 8, 15 / 16])"
    by blast
  have yb: "binarize [15 / 16, 7 / 8, 15 / 16] = [1, 1, 1]"
    by (simp add: binarize_Cons)
  have nu: "n_unique [1, 1, 1] < 2"
    by (simp add: n_unique_def)
  show ?thesis
    by (simp only: process_scenario_def prod.case Let_def ld sum.case yb nu if_True) simp
qed

lemma collect_confusion_demo:
  "collect_confusion demo =
   Done \<lparr>stdout =
           [processing_msg ''Critical Node'',
            processing_msg ''Data Manipulation'', skipping_msg ''Data Manipulation'',
            processing_msg ''MITM Attack'', skipping_msg ''MITM Attack'',
            processing_msg ''Sybil Attack'', skipping_msg ''Sybil Attack''],
         conf_data =
           [(''Critical Node'', ''Random Forest'', ((1, 0), (2, 0))),
            (''Critical Node'', ''SVM'', ((0, 1), (0, 2))),
            (''Critical Node'', ''CNN'', ((0, 1), (0, 2)))]\<rparr>"
  by (simp add: collect_confusion_def file_paths_def process_scenario_demo
      process_scenario_demo_steady)

lemma fl_exact:
  assumes "0 < x" and "x / ulp x = of_int k"
  shows "fl x = x"
proof -
  have "fl x = of_int k * ulp x"
    using assms by (simp add: fl_pos_eq rint_of_int)
  also have "\<dots> = x / ulp x * ulp x"
    by (simp only: assms(2))
  also have "\<dots> = x"
    using ulp_pos [of x] by simp
  finally show ?thesis .
qed

lemma fl_of_nat:
  assumes "n < 2 ^ 53"
  shows "fl (of_nat n) = of_nat n"
proof (cases "n = 0")
  case True
  then show ?thesis
    by (simp add: fl_zero)
next
  case False
  define x :: rat where "x = of_nat n"
  have pos: "0 < x" and ge: "1 \<le> x"
    using False by (simp_all add: x_def Suc_le_eq)
  have "x < of_nat (2 ^ 53)"
    unfolding x_def using assms by (simp only: of_nat_less_iff)
  then have lt: "x < 2 powi 53"
    by simp
  have lo: "0 \<le> lb x"
  proof -
    have "lb 1 = 0"
      by (rule lb_unique) simp_all
    then show ?thesis
      using lb_mono [of 1 x] ge by simp
  qed
  have hi: "lb x \<le> 52"
  proof -
    have "2 powi lb x \<le> x"
      using lb_bounds [OF pos] by simp
    with lt have "(2::rat) powi lb x < 2 powi 53"
      by linarith
    then have "lb x < 53"
      using two_powi_mono [of 53 "lb x"] by linarith
    then show ?thesis
      by simp
  qed
  have u: "ulp x = 2 powi (lb x - 52)"
    using pos lo by (simp add: ulp_def max_def)
  have "x / ulp x = x * 2 powi (52 - lb x)"
    by (simp add: u power_int_diff field_simps)
  also have "\<dots> = of_int (int n * 2 ^ nat (52 - lb x))"
    using hi by (simp add: x_def power_int_nonneg_exp)
  finally show ?thesis
    unfolding x_def [symmetric] using pos by (intro fl_exact)
qed


subsection \<open>Metrics of a confusion matrix\<close>

lemma precision_Some:
  "precision ((tn, fp), (fn, tp)) =
     Some (if 0 < tp + fp then fl (fl (of_nat tp) / fl (of_nat (tp + fp))) else 0)"
  by (simp add: precision_def ravel_def np_divide_Some)

lemma recall_Some:
  "recall ((tn, fp), (fn, tp)) =
     Some (if 0 < tp + fn then fl (fl (of_nat tp) / fl (of_nat (tp + fn))) else 0)"
  by (simp add: recall_def ravel_def np_divide_Some)

lemma f1_Some:
  assumes "precision cm = Some p" and "recall cm = Some r"
  shows "f1 cm = Some (if 0 < fadd p r then fl (fmul 2 (fmul p r) / fadd p r) else 0)"
  using assms by (simp add: f1_def fdiv_def)

text \<open>
  C4. Whatever the confusion matrix, precision, recall and F1 are computed without a
  division by zero: each has a value. Precision is 0.0 when \<open>tp + fp = 0\<close>, recall is 0.0
  when \<open>tp + fn = 0\<close>, F1 is 0.0 when precision and recall add up to zero, and the table
  reports 0.0 in these cases.
\<close>

theorem zero_denominator_metrics:
  "(tp + fp = 0 \<longrightarrow>
      precision ((tn, fp), (fn, tp)) = Some 0
      \<and> Precision (metrics_row (attack, model, (tn, fp), (fn, tp))) = Some 0)
   \<and> (tp + fn = 0 \<longrightarrow>
      recall ((tn, fp), (fn, tp)) = Some 0
      \<and> Recall (metrics_row (attack, model, (tn, fp), (fn, tp))) = Some 0)
   \<and> (\<forall>p r. precision ((tn, fp), (fn, tp)) = Some p \<and> recall ((tn, fp), (fn, tp)) = Some r
         \<and> fadd p r = 0 \<longrightarrow>
      f1 ((tn, fp), (fn, tp)) = Some 0
      \<and> F1_Score (metrics_row (attack, model, (tn, fp), (fn, tp))) = Some 0)
   \<and> (\<exists>p r f. precision ((tn, fp), (fn, tp)) = Some p \<and> recall ((tn, fp), (fn, tp)) = Some r
         \<and> f1 ((tn, fp), (fn, tp)) = Some f
         \<and> Precision (metrics_row (attack, model, (tn, fp), (fn, tp))) = Some (np_round 4 p)
         \<and> Recall (metrics_row (attack, model, (tn, fp), (fn, tp))) = Some (np_round 4 r)
         \<and> F1_Score (metrics_row (attack, model, (tn, fp), (fn, tp))) = Some (np_round 4 f))"
proof (intro conjI impI allI)
  assume "tp + fp = 0"
  then show "precision ((tn, fp), (fn, tp)) = Some 0"
    by (simp add: precision_Some)
  then show "Precision (metrics_row (attack, model, (tn, fp), (fn, tp))) = Some 0"
    by (simp add: metrics_row_def ravel_def np_round_zero)
next
  assume "tp + fn = 0"
  then show "recall ((tn, fp), (fn, tp)) = Some 0"
    by (simp add: recall_Some)
  then show "Recall (metrics_row (attack, model, (tn, fp), (fn, tp))) = Some 0"
    by (simp add: metrics_row_def ravel_def np_round_zero)
next
  fix p r
  assume a: "precision ((tn, fp), (fn, tp)) = Some p \<and> recall ((tn, fp), (fn, tp)) = Some r
    \<and> fadd p r = 0"
  then show "f1 ((tn, fp), (fn, tp)) = Some 0"
    using f1_Some [of "((tn, fp), (fn, tp))" p r] by simp
  then show "F1_Score (metrics_row (attack, model, (tn, fp), (fn, tp))) = Some 0"
    by (simp add: metrics_row_def ravel_def np_round_zero)
next
  obtain p where p: "precision ((tn, fp), (fn, tp)) = Some p"
    using precision_Some by blast
  obtain r where r: "recall ((tn, fp), (fn, tp)) = Some r"
    using recall_Some by blast
  obtain f where f: "f1 ((tn, fp), (fn, tp)) = Some f"
    using f1_Some [OF p r] by blast
  show "\<exists>p r f. precision ((tn, fp), (fn, tp)) = Some p \<and> recall ((tn, fp), (fn, tp)) = Some r
         \<and> f1 ((tn, fp), (fn, tp)) = Some f
         \<and> Precision (metrics_row (attack, model, (tn, fp), (fn, tp))) = Some (np_round 4 p)
         \<and> Recall (metrics_row (attack, model, (tn, fp), (fn, tp))) = Some (np_round 4 r)
         \<and> F1_Score (metrics_row (attack, model, (tn, fp), (fn, tp))) = Some (np_round 4 f)"
    using p r f by (simp add: metrics_row_def ravel_def)
qed

theorem zero_denominator_metrics_witness:
  "precision ((5, 0), (0, 0)) = Some 0
   \<and> Precision (metrics_row (''Critical Node'', ''SVM'', (5, 0), (0, 0))) = Some 0
   \<and> recall ((5, 0), (0, 0)) = Some 0
   \<and> Recall (metrics_row (''Critical Node'', ''SVM'', (5, 0), (0, 0))) = Some 0
   \<and> fadd 0 0 = 0
   \<and> f1 ((5, 0), (0, 0)) = Some 0
   \<and> F1_Score (metrics_row (''Critical Node'', ''SVM'', (5, 0), (0, 0))) = Some 0"
proof -
  note th = zero_denominator_metrics
    [where tp = 0 and fp = 0 and fn = 0 and tn = 5 and attack = "''Critical Node''"
      and model = "''SVM''"]
  have z: "fadd 0 0 = 0"
    by (simp add: fadd_def fl_zero)
  from th have p: "precision ((5, 0), (0, 0)) = Some 0"
    "Precision (metrics_row (''Critical Node'', ''SVM'', (5, 0), (0, 0))) = Some 0"
    by simp_all
  from th have r: "recall ((5, 0), (0, 0)) = Some 0"
    "Recall (metrics_row (''Critical Node'', ''SVM'', (5, 0), (0, 0))) = Some 0"
    by simp_all
  from th p(1) r(1) z have f: "f1 ((5, 0), (0, 0)) = Some 0"
    "F1_Score (metrics_row (''Critical Node'', ''SVM'', (5, 0), (0, 0))) = Some 0"
    by blast+
  from p r z f show ?thesis
    by simp
qed

subsection \<open>Rows of the metrics table\<close>

lemma metrics_row_key [simp]:
  "Attack (metrics_row (a, m, cm)) = a" "Model (metrics_row (a, m, cm)) = m"
  by (simp_all add: metrics_row_def split: prod.splits)

lemma metrics_df_rows:
  assumes "metrics_df L = Inr table" and "row \<in> set table"
  shows "\<exists>cm. (Attack row, Model row, cm) \<in> set (conf_data (state_of (collect_confusion L)))
    \<and> row = metrics_row (Attack row, Model row, cm)"
proof -
  from assms(1) obtain s where s: "collect_confusion L = Done s"
    and t: "table = map metrics_row (conf_data s)"
    by (auto simp: metrics_df_def metrics_data_def split: outcome.splits)
  from assms(2) t obtain a m cm where e: "(a, m, cm) \<in> set (conf_data s)"
    and row: "row = metrics_row (a, m, cm)"
    by auto
  have "(Attack row, Model row, cm) \<in> set (conf_data (state_of (collect_confusion L)))"
    using e by (simp add: s row)
  moreover have "row = metrics_row (Attack row, Model row, cm)"
    by (simp add: row)
  ultimately show ?thesis
    by blast
qed

lemma conf_data_counts:
  assumes "(attack, model, cm) \<in> set (conf_data (state_of (collect_confusion L)))"
  shows "\<exists>path df0 y_true tn fp fn tp.
     (attack, path) \<in> set file_paths \<and> read_csv L path = Inr df0
     \<and> getitem df0 ''Swarm Coordination Rate'' = Inr y_true
     \<and> n_unique (binarize y_true) = 2
     \<and> cm = ((tn, fp), (fn, tp)) \<and> tn + fp + fn + tp = length y_true
     \<and> 2 \<le> length y_true"
proof -
  from conf_data_provenance [OF assms] obtain path df0 y_true preds where
    p: "(attack, path) \<in> set file_paths" "read_csv L path = Inr df0"
      "getitem df0 ''Swarm Coordination Rate'' = Inr y_true"
      "2 \<le> n_unique (binarize y_true)"
      "confusion_matrix (binarize y_true) (binarize preds) = Inr cm"
    by blast
  obtain tn fp fn tp where cm: "cm = ((tn, fp), (fn, tp))"
    by (metis surj_pair)
  have total: "tn + fp + fn + tp = length y_true"
    using confusion_matrix_total(2) [OF p(5)] by (simp add: cm)
  have two: "n_unique (binarize y_true) = 2"
    using p(4) n_unique_binarize_le [of y_true] by simp
  have "2 \<le> length y_true"
    using p(4) n_unique_le_length [of "binarize y_true"] by simp
  with p cm total two show ?thesis
    by blast
qed

lemma accuracy_Some:
  assumes "0 < tp + tn + fp + fn"
  shows "accuracy ((tn, fp), (fn, tp)) =
    Some (fl (fl (of_nat (tp + tn)) / fl (of_nat (tp + tn + fp + fn))))"
  using assms by (simp add: accuracy_def ravel_def np_divide_Some)

text \<open>
  C10. Every row of the metrics table comes from a scenario of the file list whose
  binarized labels have two classes; the four counts of its confusion matrix add up to the
  number of rows of that scenario, which is at least 2, so the division that computes the
  accuracy has a non-zero divisor and the accuracy has a value.
\<close>

theorem accuracy_divisor_positive:
  assumes "metrics_df L = Inr table" and "row \<in> set table"
  shows "\<exists>path df0 y_true tn fp fn tp.
     (Attack row, path) \<in> set file_paths \<and> read_csv L path = Inr df0
     \<and> getitem df0 ''Swarm Coordination Rate'' = Inr y_true
     \<and> 2 \<le> n_unique (binarize y_true)
     \<and> row = metrics_row (Attack row, Model row, (tn, fp), (fn, tp))
     \<and> tp + tn + fp + fn = length y_true \<and> 2 \<le> tp + tn + fp + fn
     \<and> accuracy ((tn, fp), (fn, tp)) \<noteq> None \<and> Accuracy row \<noteq> None"
proof -
  from metrics_df_rows [OF assms] obtain cm where
    e: "(Attack row, Model row, cm) \<in> set (conf_data (state_of (collect_confusion L)))"
    and row: "row = metrics_row (Attack row, Model row, cm)"
    by blast
  from conf_data_counts [OF e] obtain path df0 y_true tn fp fn tp where
    p: "(Attack row, path) \<in> set file_paths" "read_csv L path = Inr df0"
      "getitem df0 ''Swarm Coordination Rate'' = Inr y_true"
      "n_unique (binarize y_true) = 2"
      "cm = ((tn, fp), (fn, tp))" "tn + fp + fn + tp = length y_true" "2 \<le> length y_true"
    by blast
  have total: "tp + tn + fp + fn = length y_true"
    using p(6) by simp
  have "0 < tp + tn + fp + fn"
    using total p(7) by linarith
  then have acc: "accuracy ((tn, fp), (fn, tp)) \<noteq> None"
    by (simp only: accuracy_Some) simp
  have "Accuracy row = map_option (np_round 4) (accuracy ((tn, fp), (fn, tp)))"
    by (subst row) (simp add: metrics_row_def p(5) ravel_def)
  with acc have "Accuracy row \<noteq> None"
    by simp
  with p row total acc show ?thesis
    by (metis order_refl)
qed


theorem accuracy_divisor_positive_witness:
  "metrics_df demo =
     Inr (metrics_data
       [(''Critical Node'', ''Random Forest'', ((1, 0), (2, 0))),
        (''Critical Node'', ''SVM'', ((0, 1), (0, 2))),
        (''Critical Node'', ''CNN'', ((0, 1), (0, 2)))])
   \<and> metrics_row (''Critical Node'', ''SVM'', ((0, 1), (0, 2)))
       \<in> set (metrics_data
       [(''Critical Node'', ''Random Forest'', ((1, 0), (2, 0))),
        (''Critical Node'', ''SVM'', ((0, 1), (0, 2))),
        (''Critical Node'', ''CNN'', ((0, 1), (0, 2)))])
   \<and> (\<exists>path df0 y_true tn fp fn tp.
     (''Critical Node'', path) \<in> set file_paths \<and> read_csv (demo :: nat library) path = Inr df0
     \<and> getitem df0 ''Swarm Coordination Rate'' = Inr y_true
     \<and> 2 \<le> n_unique (binarize y_true)
     \<and> metrics_row (''Critical Node'', ''SVM'', ((0, 1), (0, 2)))
         = metrics_row (''Critical Node'', ''SVM'', (tn, fp), (fn, tp))
     \<and> tp + tn + fp + fn = length y_true \<and> 2 \<le> tp + tn + fp + fn
     \<and> accuracy ((tn, fp), (fn, tp)) \<noteq> None
     \<and> Accuracy (metrics_row (''Critical Node'', ''SVM'', ((0, 1), (0, 2)))) \<noteq> None)"
proof -
  have t: "metrics_df demo =
     Inr (metrics_data
       [(''Critical Node'', ''Random Forest'', ((1, 0), (2, 0))),
        (''Critical Node'', ''SVM'', ((0, 1), (0, 2))),
        (''Critical Node'', ''CNN'', ((0, 1), (0, 2)))])"
    by (simp add: metrics_df_def collect_confusion_demo)
  have m: "metrics_row (''Critical Node'', ''SVM'', ((0, 1), (0, 2)))
       \<in> set (metrics_data
       [(''Critical Node'', ''Random Forest'', ((1, 0), (2, 0))),
        (''Critical Node'', ''SVM'', ((0, 1), (0, 2))),
        (''Critical Node'', ''CNN'', ((0, 1), (0, 2)))])"
    by (simp add: metrics_data_def)
  from accuracy_divisor_positive [OF t m] t m show ?thesis
    by simp
qed

lemma fl_third: "fl (1 / 3) = 6004799503160661 / 18014398509481984"
  by code_simp

lemma np_round_third:
  "np_round 4 (6004799503160661 / 18014398509481984) = 6004199023210345 / 18014398509481984"
  by code_simp

lemma accuracy_demo:
  "Accuracy (metrics_row (''Critical Node'', ''Random Forest'', ((1, 0), (2, 0))))
     = Some (6004199023210345 / 18014398509481984)"
proof -
  have "fl (of_nat 1) = 1" "fl (of_nat 3) = 3"
    using fl_of_nat [of 1] fl_of_nat [of 3] by simp_all
  then have "accuracy ((1, 0), (2, 0)) = Some (fl (1 / 3))"
    using accuracy_Some [of 0 1 0 2] by simp
  then show ?thesis
    by (simp add: metrics_row_def ravel_def fl_third np_round_third)
qed

text \<open>
  C3 (as amended). In a scenario of the file list whose binarized labels have exactly two
  classes, every row of the metrics table for it has counts that add up to the number of rows
  of the scenario; the accuracy computed is the binary64 quotient of \<open>tp + tn\<close> by
  \<open>tp + tn + fp + fn\<close>, and the accuracy reported in the table is that quotient rounded to
  four decimals.
\<close>

theorem confusion_counts_and_accuracy:
  assumes "(attack, path) \<in> set file_paths" and "read_csv L path = Inr df0"
    and "getitem df0 ''Swarm Coordination Rate'' = Inr y_true"
    and "n_unique (binarize y_true) = 2"
    and "metrics_df L = Inr table" and "row \<in> set table" and "Attack row = attack"
  shows "\<exists>tn fp fn tp.
     row = metrics_row (attack, Model row, (tn, fp), (fn, tp))
     \<and> tn + fp + fn + tp = length y_true
     \<and> accuracy ((tn, fp), (fn, tp))
         = Some (fl (fl (of_nat (tp + tn)) / fl (of_nat (tp + tn + fp + fn))))
     \<and> Accuracy row
         = Some (np_round 4 (fl (fl (of_nat (tp + tn)) / fl (of_nat (tp + tn + fp + fn)))))
     \<and> (length y_true < 2 ^ 53 \<longrightarrow>
         Accuracy row
           = Some (np_round 4 (fl (of_nat (tp + tn) / of_nat (tp + tn + fp + fn)))))"
proof -
  from metrics_df_rows [OF assms(5,6)] obtain cm where
    e: "(attack, Model row, cm) \<in> set (conf_data (state_of (collect_confusion L)))"
    and row: "row = metrics_row (attack, Model row, cm)"
    by (auto simp: assms(7))
  from conf_data_counts [OF e] obtain path' df0' y' tn fp fn tp where
    p: "(attack, path') \<in> set file_paths" "read_csv L path' = Inr df0'"
      "getitem df0' ''Swarm Coordination Rate'' = Inr y'"
      "cm = ((tn, fp), (fn, tp))" "tn + fp + fn + tp = length y'" "2 \<le> length y'"
    by blast
  have "path' = path"
    using p(1) assms(1) by (rule file_paths_unique)
  with p(2,3) assms(2,3) have y: "y' = y_true"
    by simp
  have pos: "0 < tp + tn + fp + fn"
    using p(5,6) by linarith
  have acc: "accuracy ((tn, fp), (fn, tp))
      = Some (fl (fl (of_nat (tp + tn)) / fl (of_nat (tp + tn + fp + fn))))"
    using pos by (rule accuracy_Some)
  have rep: "Accuracy row = map_option (np_round 4) (accuracy ((tn, fp), (fn, tp)))"
    by (subst row) (simp add: metrics_row_def p(4) ravel_def)
  have small: "Accuracy row
      = Some (np_round 4 (fl (of_nat (tp + tn) / of_nat (tp + tn + fp + fn))))"
    if "length y_true < 2 ^ 53"
  proof -
    have "tp + tn + fp + fn = length y_true" "tp + tn \<le> length y_true"
      using p(5) y by simp_all
    with that have "tp + tn < 2 ^ 53" "tp + tn + fp + fn < 2 ^ 53"
      by (simp_all only: order_le_less_trans)
    then have "fl (of_nat (tp + tn)) = of_nat (tp + tn)"
      "fl (of_nat (tp + tn + fp + fn)) = of_nat (tp + tn + fp + fn)"
      by (simp_all only: fl_of_nat)
    then show ?thesis
      by (simp only: rep acc option.map)
  qed
  from row p(4,5) y acc rep small show ?thesis
    by (simp only: option.map) blast
qed

theorem confusion_counts_and_accuracy_witness:
  "(''Critical Node'', ''C:/Users/Documents/AirSim/drone_simulation_log_critical_node.csv'')
     \<in> set file_paths
   \<and> read_csv (demo :: nat library)
       ''C:/Users/Documents/AirSim/drone_simulation_log_critical_node.csv'' = Inr telemetry
   \<and> getitem telemetry ''Swarm Coordination Rate'' = Inr [7 / 8, 3 / 4, 15 / 16]
   \<and> n_unique (binarize [7 / 8, 3 / 4, 15 / 16]) = 2
   \<and> metrics_df demo =
     Inr (metrics_data
       [(''Critical Node'', ''Random Forest'', ((1, 0), (2, 0))),
        (''Critical Node'', ''SVM'', ((0, 1), (0, 2))),
        (''Critical Node'', ''CNN'', ((0, 1), (0, 2)))])
   \<and> (\<exists>tn fp fn tp.
     metrics_row (''Critical Node'', ''Random Forest'', ((1, 0), (2, 0)))
       = metrics_row (''Critical Node'', ''Random Forest'', (tn, fp), (fn, tp))
     \<and> tn + fp + fn + tp = length [7 / 8, 3 / 4, 15 / 16 :: rat]
     \<and> Accuracy (metrics_row (''Critical Node'', ''Random Forest'', ((1, 0), (2, 0))))
         = Some (np_round 4 (fl (of_nat (tp + tn) / of_nat (tp + tn + fp + fn)))))"
proof -
  have a: "(''Critical Node'',
      ''C:/Users/Documents/AirSim/drone_simulation_log_critical_node.csv'') \<in> set file_paths"
    by (simp add: file_paths_def)
  have b: "read_csv (demo :: nat library)
      ''C:/Users/Documents/AirSim/drone_simulation_log_critical_node.csv'' = Inr telemetry"
    by (simp add: demo_def)
  note c = telemetry_getitem(11)
  have d: "n_unique (binarize [7 / 8, 3 / 4, 15 / 16]) = 2"
    by (simp add: binarize_Cons n_unique_def)
  have t: "metrics_df demo =
     Inr (metrics_data
       [(''Critical Node'', ''Random Forest'', ((1, 0), (2, 0))),
        (''Critical Node'', ''SVM'', ((0, 1), (0, 2))),
        (''Critical Node'', ''CNN'', ((0, 1), (0, 2)))])"
    by (simp add: metrics_df_def collect_confusion_demo)
  have m: "metrics_row (''Critical Node'', ''Random Forest'', ((1, 0), (2, 0)))
       \<in> set (metrics_data
       [(''Critical Node'', ''Random Forest'', ((1, 0), (2, 0))),
        (''Critical Node'', ''SVM'', ((0, 1), (0, 2))),
        (''Critical Node'', ''CNN'', ((0, 1), (0, 2)))])"
    by (simp add: metrics_data_def)
  have k: "Attack (metrics_row (''Critical Node'', ''Random Forest'', ((1, 0), (2, 0))))
      = ''Critical Node''"
    by simp
  from confusion_counts_and_accuracy [OF a b c d t m k] obtain tn fp fn tp where
    "metrics_row (''Critical Node'', ''Random Forest'', ((1, 0), (2, 0)))
       = metrics_row (''Critical Node'', ''Random Forest'', (tn, fp), (fn, tp))
     \<and> tn + fp + fn + tp = length [7 / 8, 3 / 4, 15 / 16 :: rat]
     \<and> Accuracy (metrics_row (''Critical Node'', ''Random Forest'', ((1, 0), (2, 0))))
         = Some (np_round 4 (fl (of_nat (tp + tn) / of_nat (tp + tn + fp + fn))))"
    by auto
  with a b c d t show ?thesis
    by blast
qed

text \<open>
  The claim as stated fails on the stand-in libraries: the first scenario has three rows and
  two classes, the random forest is right on one row, and the table reports 0.3333, which is
  neither one third nor the binary64 quotient of 1 by 3.
\<close>

theorem reported_accuracy_is_rounded:
  "n_unique (binarize [7 / 8, 3 / 4, 15 / 16]) = 2
   \<and> metrics_df demo =
     Inr (metrics_data
       [(''Critical Node'', ''Random Forest'', ((1, 0), (2, 0))),
        (''Critical Node'', ''SVM'', ((0, 1), (0, 2))),
        (''Critical Node'', ''CNN'', ((0, 1), (0, 2)))])
   \<and> ravel ((1, 0), (2, 0)) = (1, 0, 2, 0)
   \<and> Accuracy (metrics_row (''Critical Node'', ''Random Forest'', ((1, 0), (2, 0))))
       = Some (6004199023210345 / 18014398509481984)
   \<and> (6004199023210345 / 18014398509481984 :: rat) \<noteq> (0 + 1) / (0 + 1 + 0 + 2)
   \<and> 6004199023210345 / 18014398509481984 \<noteq> fl ((0 + 1) / (0 + 1 + 0 + 2))"
proof -
  have c1: "n_unique (binarize [7 / 8, 3 / 4, 15 / 16]) = 2"
    by (simp add: binarize_Cons n_unique_def)
  have c2: "metrics_df demo =
     Inr (metrics_data
       [(''Critical Node'', ''Random Forest'', ((1, 0), (2, 0))),
        (''Critical Node'', ''SVM'', ((0, 1), (0, 2))),
        (''Critical Node'', ''CNN'', ((0, 1), (0, 2)))])"
    by (simp add: metrics_df_def collect_confusion_demo)
  have c3: "ravel ((1, 0), (2, 0)) = (1, 0, 2, 0)"
    by (simp add: ravel_def)
  have c5: "(6004199023210345 / 18014398509481984 :: rat) \<noteq> (0 + 1) / (0 + 1 + 0 + 2)"
    by simp
  have c6: "6004199023210345 / 18014398509481984 \<noteq> fl ((0 + 1) / (0 + 1 + 0 + 2))"
    by (simp add: fl_third)
  show ?thesis
    by (intro conjI c1 c2 c3 accuracy_demo c5 c6)
qed

subsection \<open>Skipped scenarios\<close>

lemma for_each_Done_visits:
  assumes "for_each body s xs = Done s'" and "x \<in> set xs"
    and keep: "\<And>t y. Q t \<Longrightarrow> Q (state_of (body t y))"
    and hit: "\<And>t t'. body t x = Done t' \<Longrightarrow> Q t'"
  shows "Q s'"
  using assms(1,2)
proof (induction xs arbitrary: s)
  case Nil
  then show ?case
    by simp
next
  case (Cons y ys)
  from Cons.prems(1) obtain s1 where s1: "body s y = Done s1"
    and rest: "for_each body s1 ys = Done s'"
    by (auto split: outcome.splits)
  show ?case
  proof (cases "x = y")
    case True
    with s1 have "Q s1"
      using hit by simp
    then have "Q (state_of (for_each body s1 ys))"
      using keep by (rule for_each_preserves)
    with rest show ?thesis
      by simp
  next
    case False
    with Cons.prems(2) have "x \<in> set ys"
      by simp
    with rest show ?thesis
      by (rule Cons.IH)
  qed
qed

lemma collect_model_stdout:
  "stdout (state_of (collect_model a yb s mp)) = stdout s"
  by (cases mp) (simp add: collect_model_state split: sum.splits)

lemma process_scenario_stdout:
  assumes "m \<in> set (stdout s)"
  shows "m \<in> set (stdout (state_of (process_scenario L s ap)))"
proof -
  obtain a path where ap: "ap = (a, path)"
    by (cases ap)
  define s1 where "s1 = s\<lparr>stdout := stdout s @ [processing_msg a]\<rparr>"
  have m1: "m \<in> set (stdout s1)"
    using assms by (simp add: s1_def)
  have inner: "m \<in> set (stdout (state_of (for_each (collect_model a yb) s1 ps)))" for yb ps
    using m1 by (rule for_each_preserves) (simp add: collect_model_stdout)
  show ?thesis
    using m1 inner
    by (auto simp: ap process_scenario_def Let_def s1_def split: sum.splits prod.splits)
qed

text \<open>
  C5. A scenario of the file list whose binarized labels have fewer than two classes is
  skipped: processing it prints the skip message and adds nothing to the collected confusion
  matrices; no entry for it is ever collected, so the metrics table has no row for it; and
  when the collection runs to its end the skip message is in the output.
\<close>

theorem single_class_scenario_skipped:
  assumes "(attack, path) \<in> set file_paths" and "load_scenario L path = Inr (df, y_true)"
    and "n_unique (binarize y_true) < 2"
  shows "process_scenario L s (attack, path)
       = Done (s\<lparr>stdout := stdout s @ [processing_msg attack, skipping_msg attack]\<rparr>)
     \<and> (\<forall>model cm. (attack, model, cm) \<notin> set (conf_data (state_of (collect_confusion L))))
     \<and> (\<forall>table. metrics_df L = Inr table \<longrightarrow> attack \<notin> Attack ` set table)
     \<and> (\<forall>s'. collect_confusion L = Done s' \<longrightarrow> skipping_msg attack \<in> set (stdout s'))"
proof (intro conjI allI impI)
  show step: "process_scenario L t (attack, path)
       = Done (t\<lparr>stdout := stdout t @ [processing_msg attack, skipping_msg attack]\<rparr>)" for t
    using assms(2,3) by (simp add: process_scenario_def Let_def)
  from assms(2) obtain df0 where src: "read_csv L path = Inr df0"
    "getitem df0 ''Swarm Coordination Rate'' = Inr y_true"
    using load_scenario_Inr by blast
  show none: "(attack, model, cm) \<notin> set (conf_data (state_of (collect_confusion L)))"
    for model cm
  proof
    assume "(attack, model, cm) \<in> set (conf_data (state_of (collect_confusion L)))"
    from conf_data_provenance [OF this] obtain path' df0' y' where
      p: "(attack, path') \<in> set file_paths" "read_csv L path' = Inr df0'"
        "getitem df0' ''Swarm Coordination Rate'' = Inr y'" "2 \<le> n_unique (binarize y')"
      by blast
    have "path' = path"
      using p(1) assms(1) by (rule file_paths_unique)
    with p(2,3) src have "y' = y_true"
      by simp
    with p(4) assms(3) show False
      by simp
  qed
  show "attack \<notin> Attack ` set table" if "metrics_df L = Inr table" for table
  proof
    assume "attack \<in> Attack ` set table"
    then obtain row where "row \<in> set table" "Attack row = attack"
      by auto
    with metrics_df_rows [OF that] none show False
      by blast
  qed
  show "skipping_msg attack \<in> set (stdout s')" if "collect_confusion L = Done s'" for s'
  proof (rule for_each_Done_visits [where body = "process_scenario L"
        and Q = "\<lambda>t. skipping_msg attack \<in> set (stdout t)"])
    show "for_each (process_scenario L) \<lparr>stdout = [], conf_data = []\<rparr> file_paths = Done s'"
      using that by (simp add: collect_confusion_def)
    show "(attack, path) \<in> set file_paths"
      by (rule assms(1))
    show "skipping_msg attack \<in> set (stdout (state_of (process_scenario L t y)))"
      if "skipping_msg attack \<in> set (stdout t)" for t y
      using that by (rule process_scenario_stdout)
    show "skipping_msg attack \<in> set (stdout t')"
      if "process_scenario L t (attack, path) = Done t'" for t t'
      using that step [of t] by auto
  qed
qed

theorem single_class_scenario_skipped_witness:
  "(''Sybil Attack'', ''C:/Users/Documents/AirSim/drone_sybil_attack.csv'') \<in> set file_paths
   \<and> (\<exists>df. load_scenario (demo :: nat library)
          ''C:/Users/Documents/AirSim/drone_sybil_attack.csv''
        = Inr (df, [15 / 16, 7 / 8, 15 / 16]))
   \<and> n_unique (binarize [15 / 16, 7 / 8, 15 / 16]) < 2
   \<and> process_scenario demo \<lparr>stdout = [], conf_data = []\<rparr>
        (''Sybil Attack'', ''C:/Users/Documents/AirSim/drone_sybil_attack.csv'')
       = Done \<lparr>stdout = [processing_msg ''Sybil Attack'', skipping_msg ''Sybil Attack''],
               conf_data = []\<rparr>
   \<and> (\<exists>table. metrics_df demo = Inr table \<and> ''Sybil Attack'' \<notin> Attack ` set table)
   \<and> (\<exists>s'. collect_confusion demo = Done s'
         \<and> skipping_msg ''Sybil Attack'' \<in> set (stdout s'))"
proof -
  have a: "(''Sybil Attack'', ''C:/Users/Documents/AirSim/drone_sybil_attack.csv'')
      \<in> set file_paths"
    by (simp add: file_paths_def)
  obtain df where b: "load_scenario (demo :: nat library)
      ''C:/Users/Documents/AirSim/drone_sybil_attack.csv''
        = Inr (df, [15 / 16, 7 / 8, 15 / 16])"
    using load_scenario_demo_steady
      [of "''C:/Users/Documents/AirSim/drone_sybil_attack.csv''"] by auto
  have c: "n_unique (binarize [15 / 16, 7 / 8, 15 / 16]) < 2"
    by (simp add: binarize_Cons n_unique_def)
  note th = single_class_scenario_skipped [OF a b c, of "\<lparr>stdout = [], conf_data = []\<rparr>"]
  obtain s' where d: "collect_confusion demo = Done s'"
    using collect_confusion_demo by blast
  then obtain table where t: "metrics_df demo = Inr table"
    by (simp add: metrics_df_def)
  from th d t have "''Sybil Attack'' \<notin> Attack ` set table"
    "skipping_msg ''Sybil Attack'' \<in> set (stdout s')"
    by blast+
  with a b c th d t show ?thesis
    by (simp only: cls_state.simps console.simps append_Nil) blast
qed

section \<open>The regression notebook\<close>

lemma preprocess_Inr:
  assumes "preprocess df0 = Inr (df, X, y)"
  shows "feature_engineering df0 = Inr df" and "select_columns df features = Inr X"
    and "getitem df0 ''Swarm Coordination Rate'' = Inr y"
proof -
  from assms show fe: "feature_engineering df0 = Inr df"
    and "select_columns df features = Inr X"
    by (auto simp: preprocess_def ebind_Inr_iff)
  from assms have "getitem df ''Swarm Coordination Rate'' = Inr y"
    by (auto simp: preprocess_def ebind_Inr_iff)
  moreover have "getitem df ''Swarm Coordination Rate''
      = getitem df0 ''Swarm Coordination Rate''"
    using fe by (rule feature_engineering_keeps) (simp add: derived_columns_def)
  ultimately show "getitem df0 ''Swarm Coordination Rate'' = Inr y"
    by simp
qed

lemma train_test_split_Inr:
  assumes "train_test_split L X y = Inr (Xt, yt)"
  shows "length X = length y"
    and "\<exists>idx. train_indices L (length X) = Inr idx \<and> Xt = map ((!) X) idx
      \<and> yt = map ((!) y) idx"
  using assms by (auto simp: train_test_split_def ebind_Inr_iff split: if_splits)

lemma length_reshape [simp]: "length (reshape X) = length X"
  by (simp add: reshape_def)

lemma models_Inr:
  assumes "models L X y = Inr ps"
  shows "\<exists>X_scaled idx p_svm p_rf p_cnn.
     fit_transform L X = Inr X_scaled \<and> length X_scaled = length y
     \<and> train_indices L (length y) = Inr idx
     \<and> model_svm L (map ((!) X_scaled) idx) (map ((!) y) idx) X_scaled = Inr p_svm
     \<and> model_rf L (map ((!) X_scaled) idx) (map ((!) y) idx) X_scaled = Inr p_rf
     \<and> model_cnn L (map ((!) (reshape X_scaled)) idx) (map ((!) y) idx) (reshape X_scaled)
         = Inr p_cnn
     \<and> ps = [(''SVM (SVR)'', p_svm), (''Random Forest'', p_rf), (''CNN'', p_cnn)]"
proof -
  from assms obtain X_scaled Xt yt Xr yr p_svm p_rf p_cnn where
    sc: "fit_transform L X = Inr X_scaled"
    and s1: "train_test_split L X_scaled y = Inr (Xt, yt)"
    and s2: "train_test_split L (reshape X_scaled) y = Inr (Xr, yr)"
    and m: "model_svm L Xt yt X_scaled = Inr p_svm" "model_rf L Xt yt X_scaled = Inr p_rf"
      "model_cnn L Xr yt (reshape X_scaled) = Inr p_cnn"
    and ps: "ps = [(''SVM (SVR)'', p_svm), (''Random Forest'', p_rf), (''CNN'', p_cnn)]"
    by (auto simp: models_def ebind_Inr_iff Let_def split: prod.splits)
  from train_test_split_Inr [OF s1] obtain idx where
    len: "length X_scaled = length y" and idx: "train_indices L (length X_scaled) = Inr idx"
    and t: "Xt = map ((!) X_scaled) idx" "yt = map ((!) y) idx"
    by auto
  from train_test_split_Inr [OF s2] idx have r: "Xr = map ((!) (reshape X_scaled)) idx"
    by auto
  from sc len idx m ps show ?thesis
    unfolding t r by (simp only: len [symmetric]) blast
qed

lemma preds_dict_Inr:
  assumes "preds_dict L df yb = Inr ps"
  shows "\<exists>X X_scaled idx p_rf p_svm p_cnn.
     select_columns df features = Inr X
     \<and> fit_transform L X = Inr X_scaled \<and> length X_scaled = length yb
     \<and> train_indices L (length yb) = Inr idx
     \<and> model_rf L (map ((!) X_scaled) idx) (map ((!) yb) idx) X_scaled = Inr p_rf
     \<and> model_svm L (map ((!) X_scaled) idx) (map ((!) yb) idx) X_scaled = Inr p_svm
     \<and> model_cnn L (map ((!) (reshape X_scaled)) idx) (map ((!) yb) idx) (reshape X_scaled)
         = Inr p_cnn
     \<and> ps = [(''Random Forest'', p_rf), (''SVM'', p_svm), (''CNN'', p_cnn)]"
proof -
  from assms obtain X X_scaled Xt yt Xr yr p_rf p_svm p_cnn where
    sel: "select_columns df features = Inr X"
    and sc: "fit_transform L X = Inr X_scaled"
    and s1: "train_test_split L X_scaled yb = Inr (Xt, yt)"
    and s2: "train_test_split L (reshape X_scaled) yb = Inr (Xr, yr)"
    and m: "model_rf L Xt yt X_scaled = Inr p_rf" "model_svm L Xt yt X_scaled = Inr p_svm"
      "model_cnn L Xr yr (reshape X_scaled) = Inr p_cnn"
    and ps: "ps = [(''Random Forest'', p_rf), (''SVM'', p_svm), (''CNN'', p_cnn)]"
    by (auto simp: preds_dict_def ebind_Inr_iff Let_def split: prod.splits)
  from train_test_split_Inr [OF s1] obtain idx where
    len: "length X_scaled = length yb" and idx: "train_indices L (length X_scaled) = Inr idx"
    and t: "Xt = map ((!) X_scaled) idx" "yt = map ((!) yb) idx"
    by auto
  from train_test_split_Inr [OF s2] idx have r: "Xr = map ((!) (reshape X_scaled)) idx"
    "yr = map ((!) yb) idx"
    by auto
  from sel sc len idx m ps show ?thesis
    unfolding t r by (simp only: len [symmetric]) blast
qed

lemma score_Inr:
  assumes "score L a m y preds = Inr r"
  shows "Attack r = a" and "Model r = m"
    and "\<exists>mae rmse r2. mean_absolute_error L y preds = Inr mae
      \<and> mean_squared_error L y preds = Inr rmse \<and> r2_score L y preds = Inr r2
      \<and> MAE r = np_round 6 mae \<and> RMSE r = np_round 6 rmse \<and> R2_Score r = py_round 4 r2"
  using assms by (auto simp: score_def ebind_Inr_iff)

lemma evaluate_model_state:
  "state_of (evaluate_model L a y s (m, preds)) =
     (case score L a m y preds of
        Inl e \<Rightarrow> s
      | Inr r \<Rightarrow> s\<lparr>summary := summary s @ [r]\<rparr>)"
  by (simp add: evaluate_model_def split: sum.splits)

lemma summary_provenance:
  assumes "r \<in> set (summary (state_of (evaluation_pipeline L)))"
  shows "\<exists>path df0 df X y ps preds.
     (Attack r, path) \<in> set attack_files \<and> read_csv L path = Inr df0
     \<and> preprocess df0 = Inr (df, X, y) \<and> models L X y = Inr ps
     \<and> (Model r, preds) \<in> set ps \<and> score L (Attack r) (Model r) y preds = Inr r"
proof -
  let ?J = "\<lambda>r. \<exists>path df0 df X y ps preds.
     (Attack r, path) \<in> set attack_files \<and> read_csv L path = Inr df0
     \<and> preprocess df0 = Inr (df, X, y) \<and> models L X y = Inr ps
     \<and> (Model r, preds) \<in> set ps \<and> score L (Attack r) (Model r) y preds = Inr r"
  let ?P = "\<lambda>s. \<forall>r. r \<in> set (summary s) \<longrightarrow> ?J r"
  have step: "?P (state_of (evaluate_scenario L s ap))"
    if P: "?P s" and mem: "ap \<in> set attack_files" for s ap
  proof -
    obtain a path where ap: "ap = (a, path)"
      by (cases ap)
    define s1 where "s1 = s\<lparr>stdout := stdout s @ [processing_msg_reg a]\<rparr>"
    have P1: "?P s1"
      using P by (simp add: s1_def)
    show ?thesis
    proof (cases "ebind (read_csv L path) preprocess")
      case (Inl e)
      then show ?thesis
        using P1 by (simp add: ap evaluate_scenario_def s1_def)
    next
      case (Inr t)
      obtain df X y where t: "t = (df, X, y)"
        by (cases t)
      from Inr t obtain df0 where src: "read_csv L path = Inr df0"
        "preprocess df0 = Inr (df, X, y)"
        by (auto simp: ebind_Inr_iff)
      show ?thesis
      proof (cases "models L X y")
        case (Inl e)
        then show ?thesis
          using P1 Inr t by (simp add: ap evaluate_scenario_def s1_def)
      next
        case ps: (Inr ps)
        have inner: "?P (state_of (evaluate_model L a y u mp))"
          if Pu: "?P u" and mp: "mp \<in> set ps" for u mp
        proof -
          obtain m preds where mpp: "mp = (m, preds)"
            by (cases mp)
          show ?thesis
          proof (cases "score L a m y preds")
            case (Inl e)
            then show ?thesis
              using Pu by (simp add: mpp evaluate_model_state)
          next
            case (Inr r')
            have k: "Attack r' = a" "Model r' = m"
              using score_Inr(1,2) [OF Inr] by simp_all
            have "?J r'"
              using mem ap src ps mp mpp Inr unfolding k by blast
            then show ?thesis
              using Pu Inr by (auto simp: mpp evaluate_model_state)
          qed
        qed
        have "?P (state_of (for_each (evaluate_model L a y) s1 ps))"
          using P1 inner by (rule for_each_preserves)
        then show ?thesis
          using Inr t ps by (simp add: ap evaluate_scenario_def s1_def)
      qed
    qed
  qed
  have "?P \<lparr>stdout = [], summary = []\<rparr>"
    by simp
  then have "?P (state_of (evaluation_pipeline L))"
    unfolding evaluation_pipeline_def using step by (rule for_each_preserves)
  with assms show ?thesis
    by blast
qed

subsection \<open>The regression notebook on the stand-in libraries\<close>

lemma np_round_demo:
  "np_round 6 (1 / 8) = 1 / 8" "np_round 6 (7 / 8) = 7 / 8"
  "np_round 6 (1 / 16) = 1 / 16" "np_round 6 (15 / 16) = 15 / 16"
  by code_simp+

lemma py_round_demo:
  "py_round 4 (1 / 8) = 1 / 8" "py_round 4 (7 / 8) = 7 / 8"
  "py_round 4 (1 / 16) = 1 / 16" "py_round 4 (15 / 16) = 15 / 16"
  "py_round 4 1 = 1"
  by code_simp+

text \<open>
  The two roundings differ: the double written \<^verbatim>\<open>0.43125\<close> lies above the decimal number, so
  Python's \<^verbatim>\<open>round\<close> gives \<^verbatim>\<open>0.4313\<close>, while its product with \<^verbatim>\<open>10**4\<close> is rounded to the tie
  \<^verbatim>\<open>4312.5\<close>, from which NumPy gives \<^verbatim>\<open>0.4312\<close>.
\<close>

lemma py_round_not_np_round:
  "py_round 4 (lit (43125 / 100000)) = lit (4313 / 10000)"
  "np_round 4 (lit (43125 / 100000)) = lit (4312 / 10000)"
  by code_simp+

lemma models_demo:
  assumes "getitem X ''Closeness Centrality'' = Inr cc"
    and "length cc = length y" and "length y - (length y + 4) div 5 \<noteq> 0"
  shows "models demo X y =
    Inr [(''SVM (SVR)'', map (\<lambda>v. 1) cc), (''Random Forest'', map (\<lambda>v. 0) cc),
         (''CNN'', map (\<lambda>v. 15 / 16) cc)]"
proof -
  have sc: "fit_transform demo X = Inr (map (\<lambda>v. [v]) cc)"
    using assms(1) by (simp add: demo_def getitem_def split: option.splits)
  obtain Xt yt where s1:
    "train_test_split (demo :: rat library) (map (\<lambda>v. [v]) cc) y = Inr (Xt, yt)"
    using train_test_split_demo [of "map (\<lambda>v. [v]) cc" y] assms(2,3) by auto
  obtain Xr yr where s2:
    "train_test_split (demo :: rat library) (reshape (map (\<lambda>v. [v]) cc)) y = Inr (Xr, yr)"
    using train_test_split_demo [of "reshape (map (\<lambda>v. [v]) cc)" y] assms(2,3)
    by (auto simp: reshape_def)
  have rf: "model_rf demo Xt yt (map (\<lambda>v. [v]) cc) = Inr (map (\<lambda>v. 0) cc)"
    by (simp add: model_rf_def demo_def comp_def)
  have svm: "model_svm demo Xt yt (map (\<lambda>v. [v]) cc) = Inr (map (\<lambda>v. 1) cc)"
    by (simp add: model_svm_def demo_def comp_def)
  have cnn: "model_cnn demo Xr yt (reshape (map (\<lambda>v. [v]) cc)) = Inr (map (\<lambda>v. 15 / 16) cc)"
    by (simp add: model_cnn_def demo_def reshape_def comp_def concat_singletons)
  show ?thesis
    by (simp add: models_def sc Let_def s1 s2 rf svm cnn)
qed

lemma preprocess_examples:
  "\<exists>df X. preprocess telemetry = Inr (df, X, [7 / 8, 3 / 4, 15 / 16])
     \<and> getitem X ''Closeness Centrality'' = Inr [1, 1 / 2, 1 / 4]"
  "\<exists>df X. preprocess steady = Inr (df, X, [15 / 16, 7 / 8, 15 / 16])
     \<and> getitem X ''Closeness Centrality'' = Inr [1, 1 / 2, 1 / 4]"
proof -
  have g: "getitem steady ''Battery Level'' = Inr [100, 87, 64]"
    "getitem steady ''Communication Intensity'' = Inr [1, 1 / 2, 3 / 4]"
    "getitem steady ''Communication Scale'' = Inr [1, 1 / 4, 1 / 2]"
    "getitem steady ''Latency'' = Inr [0, 1 / 4, 1 / 8]"
    "getitem steady ''Packet Loss'' = Inr [0, 1 / 8, 1 / 16]"
    "getitem steady ''Sensor Functionality'' = Inr [1, 3 / 4, 1]"
    "getitem steady ''Closeness Centrality'' = Inr [1, 1 / 2, 1 / 4]"
    "getitem steady ''Eigenvector Centrality'' = Inr [1, 1 / 2, 1 / 4]"
    "getitem steady ''Relative Speed'' = Inr [3, 5, 4]"
    "getitem steady ''Location Accuracy'' = Inr [1, 1 / 2, 3 / 4]"
    by (simp_all add: steady_getitem telemetry_getitem)
  have *: "\<exists>df X. preprocess df0 = Inr (df, X, y)
     \<and> getitem X ''Closeness Centrality'' = Inr cc"
    if fe: "feature_engineering df0 = Inr df"
      and rs: "getitem df0 ''Relative Speed'' = Inr rs"
      and la: "getitem df0 ''Location Accuracy'' = Inr la"
      and cc: "getitem df0 ''Closeness Centrality'' = Inr cc"
      and y: "getitem df0 ''Swarm Coordination Rate'' = Inr y"
    for df0 df rs la cc y
  proof -
    have keep: "getitem df ''Swarm Coordination Rate'' = Inr y"
      "getitem df ''Closeness Centrality'' = Inr cc"
      using feature_engineering_keeps [OF fe] cc y by (simp_all add: derived_columns_def)
    from select_columns_present [OF feature_engineering_Inr_features [OF fe rs la]]
    obtain X where X: "select_columns df features = Inr X"
      and k: "\<forall>c \<in> set features. getitem X c = getitem df c"
      by blast
    have "getitem X ''Closeness Centrality'' = Inr cc"
      using k keep(2) by (simp add: features_def)
    moreover have "preprocess df0 = Inr (df, X, y)"
      by (simp add: preprocess_def fe X keep(1))
    ultimately show ?thesis
      by blast
  qed
  obtain df1 where "feature_engineering telemetry = Inr df1"
    using feature_engineering_success [OF telemetry_getitem(1-8)] by blast
  from * [OF this telemetry_getitem(9,10,7,11)]
  show "\<exists>df X. preprocess telemetry = Inr (df, X, [7 / 8, 3 / 4, 15 / 16])
     \<and> getitem X ''Closeness Centrality'' = Inr [1, 1 / 2, 1 / 4]" .
  obtain df2 where "feature_engineering steady = Inr df2"
    using feature_engineering_success [OF g(1-8)] by blast
  from * [OF this g(9,10,7) steady_getitem(1)]
  show "\<exists>df X. preprocess steady = Inr (df, X, [15 / 16, 7 / 8, 15 / 16])
     \<and> getitem X ''Closeness Centrality'' = Inr [1, 1 / 2, 1 / 4]" .
qed

lemma score_demo:
  "score demo a m (y # ys) (p # ps) =
     (if length ys \<noteq> length ps then Inl ValueError
      else Inr \<lparr>Attack = a, Model = m, MAE = np_round 6 \<bar>y - p\<bar>, RMSE = np_round 6 \<bar>y - p\<bar>,
                R2_Score = py_round 4 (1 - \<bar>y - p\<bar>)\<rparr>)"
  by (simp add: score_def demo_def)

lemma evaluate_scenario_demo:
  "evaluate_scenario demo s
     (a, ''C:/Users/Documents/AirSim/drone_simulation_log_critical_node.csv'') =
   Done (s\<lparr>stdout := stdout s @ [processing_msg_reg a],
           summary := summary s @
             [\<lparr>Attack = a, Model = ''SVM (SVR)'', MAE = 1 / 8, RMSE = 1 / 8,
                R2_Score = 7 / 8\<rparr>,
              \<lparr>Attack = a, Model = ''Random Forest'', MAE = 7 / 8, RMSE = 7 / 8,
                R2_Score = 1 / 8\<rparr>,
              \<lparr>Attack = a, Model = ''CNN'', MAE = 1 / 16, RMSE = 1 / 16,
                R2_Score = 15 / 16\<rparr>]\<rparr>)"
proof -
  from preprocess_examples(1) obtain df X where
    pp: "preprocess telemetry = Inr (df, X, [7 / 8, 3 / 4, 15 / 16])"
    and cc: "getitem X ''Closeness Centrality'' = Inr [1, 1 / 2, 1 / 4]"
    by blast
  have rd: "ebind (read_csv (demo :: rat library)
      ''C:/Users/Documents/AirSim/drone_simulation_log_critical_node.csv'') preprocess
      = Inr (df, X, [7 / 8, 3 / 4, 15 / 16])"
    by (simp add: demo_def pp)
  have md: "models demo X [7 / 8, 3 / 4, 15 / 16] =
    Inr [(''SVM (SVR)'', [1, 1, 1]), (''Random Forest'', [0, 0, 0]),
         (''CNN'', [15 / 16, 15 / 16, 15 / 16])]"
    using models_demo [OF cc, of "[7 / 8, 3 / 4, 15 / 16]"] by simp
  show ?thesis
    by (simp only: evaluate_scenario_def prod.case Let_def rd sum.case md for_each.simps
        evaluate_model_def score_demo outcome.case)
      (simp add: np_round_demo py_round_demo)
qed

lemma evaluate_scenario_demo_steady:
  assumes "path \<noteq> ''C:/Users/Documents/AirSim/drone_simulation_log_critical_node.csv''"
  shows "evaluate_scenario demo s (a, path) =
   Done (s\<lparr>stdout := stdout s @ [processing_msg_reg a],
           summary := summary s @
             [\<lparr>Attack = a, Model = ''SVM (SVR)'', MAE = 1 / 16, RMSE = 1 / 16,
                R2_Score = 15 / 16\<rparr>,
              \<lparr>Attack = a, Model = ''Random Forest'', MAE = 15 / 16, RMSE = 15 / 16,
                R2_Score = 1 / 16\<rparr>,
              \<lparr>Attack = a, Model = ''CNN'', MAE = 0, RMSE = 0, R2_Score = 1\<rparr>]\<rparr>)"
proof -
  from preprocess_examples(2) obtain df X where
    pp: "preprocess steady = Inr (df, X, [15 / 16, 7 / 8, 15 / 16])"
    and cc: "getitem X ''Closeness Centrality'' = Inr [1, 1 / 2, 1 / 4]"
    by blast
  have rd: "ebind (read_csv (demo :: rat library) path) preprocess
      = Inr (df, X, [15 / 16, 7 / 8, 15 / 16])"
    using assms by (simp add: demo_def pp)
  have md: "models demo X [15 / 16, 7 / 8, 15 / 16] =
    Inr [(''SVM (SVR)'', [1, 1, 1]), (''Random Forest'', [0, 0, 0]),
         (''CNN'', [15 / 16, 15 / 16, 15 / 16])]"
    using models_demo [OF cc, of "[15 / 16, 7 / 8, 15 / 16]"] by simp
  show ?thesis
    by (simp only: evaluate_scenario_def prod.case Let_def rd sum.case md for_each.simps
        evaluate_model_def score_demo outcome.case)
      (simp add: np_round_demo py_round_demo np_round_zero)
qed

lemma evaluation_pipeline_demo:
  "evaluation_pipeline demo =
   Done \<lparr>stdout =
           [processing_msg_reg ''Critical Node'', processing_msg_reg ''Data Manipulation'',
            processing_msg_reg ''MITM Attack'', processing_msg_reg ''Sybil Attack''],
         summary = demo_summary\<rparr>"
  by (simp add: evaluation_pipeline_def attack_files_def evaluate_scenario_demo
      evaluate_scenario_demo_steady demo_summary_def)

subsection \<open>What the metrics are computed from\<close>

lemma model_rf_Inr:
  "model_rf L Xt yt Xa = Inr p \<longleftrightarrow> (\<exists>f. rf_fit L Xt yt = Inr f \<and> f Xa = Inr p)"
  by (simp add: model_rf_def ebind_Inr_iff)

lemma model_svm_Inr:
  "model_svm L Xt yt Xa = Inr p \<longleftrightarrow> (\<exists>f. svr_fit L Xt yt = Inr f \<and> f Xa = Inr p)"
  by (simp add: model_svm_def ebind_Inr_iff)

lemma model_cnn_Inr:
  "model_cnn L Xt yt Xa = Inr p \<longleftrightarrow>
     (\<exists>f q. cnn_fit L Xt yt = Inr f \<and> f Xa = Inr q \<and> p = concat q)"
  by (auto simp: model_cnn_def ebind_Inr_iff)

lemma valid_split_rows:
  assumes "train_indices L (length y) = Inr idx" and "length X = length y"
  shows "valid_split L \<longrightarrow>
     idx \<noteq> [] \<and> distinct idx \<and> (\<forall>i \<in> set idx. i < length y)
     \<and> length idx = length y - (length y + 4) div 5
     \<and> set (map ((!) X) idx) \<subseteq> set X \<and> set (map ((!) y) idx) \<subseteq> set y"
proof
  assume "valid_split L"
  with assms(1) have v: "idx \<noteq> []" "distinct idx" "\<forall>i \<in> set idx. i < length y"
    "length idx = length y - (length y + 4) div 5"
    unfolding valid_split_def by blast+
  from v(3) assms(2) have "set (map ((!) X) idx) \<subseteq> set X" "set (map ((!) y) idx) \<subseteq> set y"
    by auto
  with v show "idx \<noteq> [] \<and> distinct idx \<and> (\<forall>i \<in> set idx. i < length y)
     \<and> length idx = length y - (length y + 4) div 5
     \<and> set (map ((!) X) idx) \<subseteq> set X \<and> set (map ((!) y) idx) \<subseteq> set y"
    by blast
qed

lemma valid_split_demo: "valid_split (demo :: 'y library)"
  by (auto simp: valid_split_def demo_def split: if_splits)

text \<open>
  C7. Every row of the regression summary and every collected confusion matrix is computed
  from the whole label column of its scenario and from the predictions of the fitted
  estimator on the whole scaled feature matrix, which has one row per row of the scenario.
  The estimator was fitted on the rows of that same matrix, and the labels of that same
  column, that the split selects; with a split as scikit-learn makes it, these are distinct
  rows of the scenario, all but the fifth of them (rounded up) that the test share takes,
  and at least one: the rows used for training are among the rows predicted and scored.
  The summary stores the two errors rounded by NumPy to six decimals and the R2 score
  rounded by Python to four.
\<close>

theorem metrics_over_all_rows:
  "(r \<in> set (summary (state_of (evaluation_pipeline L))) \<longrightarrow>
      (\<exists>path df0 df X y X_scaled idx preds mae rmse r2.
         (Attack r, path) \<in> set attack_files \<and> read_csv L path = Inr df0
         \<and> preprocess df0 = Inr (df, X, y)
         \<and> getitem df0 ''Swarm Coordination Rate'' = Inr y
         \<and> fit_transform L X = Inr X_scaled \<and> length X_scaled = length y
         \<and> train_indices L (length y) = Inr idx
         \<and> (valid_split L \<longrightarrow>
              idx \<noteq> [] \<and> distinct idx \<and> (\<forall>i \<in> set idx. i < length y)
              \<and> length idx = length y - (length y + 4) div 5
              \<and> set (map ((!) X_scaled) idx) \<subseteq> set X_scaled
              \<and> set (map ((!) y) idx) \<subseteq> set y)
         \<and> (Model r = ''SVM (SVR)''
              \<and> (\<exists>f. svr_fit L (map ((!) X_scaled) idx) (map ((!) y) idx) = Inr f
                    \<and> f X_scaled = Inr preds)
            \<or> Model r = ''Random Forest''
              \<and> (\<exists>f. rf_fit L (map ((!) X_scaled) idx) (map ((!) y) idx) = Inr f
                    \<and> f X_scaled = Inr preds)
            \<or> Model r = ''CNN''
              \<and> (\<exists>f q. cnn_fit L (map ((!) (reshape X_scaled)) idx) (map ((!) y) idx) = Inr f
                    \<and> f (reshape X_scaled) = Inr q \<and> preds = concat q))
         \<and> mean_absolute_error L y preds = Inr mae
         \<and> mean_squared_error L y preds = Inr rmse \<and> r2_score L y preds = Inr r2
         \<and> MAE r = np_round 6 mae \<and> RMSE r = np_round 6 rmse
         \<and> R2_Score r = py_round 4 r2))
   \<and> ((attack, model, cm) \<in> set (conf_data (state_of (collect_confusion C))) \<longrightarrow>
      (\<exists>path df0 df y_true X X_scaled idx preds.
         (attack, path) \<in> set file_paths \<and> read_csv C path = Inr df0
         \<and> feature_engineering df0 = Inr df
         \<and> getitem df0 ''Swarm Coordination Rate'' = Inr y_true
         \<and> select_columns df features = Inr X
         \<and> fit_transform C X = Inr X_scaled \<and> length X_scaled = length y_true
         \<and> train_indices C (length y_true) = Inr idx
         \<and> (valid_split C \<longrightarrow>
              idx \<noteq> [] \<and> distinct idx \<and> (\<forall>i \<in> set idx. i < length y_true)
              \<and> length idx = length y_true - (length y_true + 4) div 5
              \<and> set (map ((!) X_scaled) idx) \<subseteq> set X_scaled
              \<and> set (map ((!) (binarize y_true)) idx) \<subseteq> set (binarize y_true))
         \<and> (model = ''Random Forest''
              \<and> (\<exists>f. rf_fit C (map ((!) X_scaled) idx) (map ((!) (binarize y_true)) idx)
                        = Inr f
                    \<and> f X_scaled = Inr preds)
            \<or> model = ''SVM''
              \<and> (\<exists>f. svr_fit C (map ((!) X_scaled) idx) (map ((!) (binarize y_true)) idx)
                        = Inr f
                    \<and> f X_scaled = Inr preds)
            \<or> model = ''CNN''
              \<and> (\<exists>f q. cnn_fit C (map ((!) (reshape X_scaled)) idx)
                          (map ((!) (binarize y_true)) idx) = Inr f
                    \<and> f (reshape X_scaled) = Inr q \<and> preds = concat q))
         \<and> length preds = length y_true
         \<and> confusion_matrix (binarize y_true) (binarize preds) = Inr cm))"
proof (intro conjI impI)
  assume "r \<in> set (summary (state_of (evaluation_pipeline L)))"
  from summary_provenance [OF this] obtain path df0 df X y ps preds where
    p: "(Attack r, path) \<in> set attack_files" "read_csv L path = Inr df0"
      "preprocess df0 = Inr (df, X, y)" "models L X y = Inr ps" "(Model r, preds) \<in> set ps"
      "score L (Attack r) (Model r) y preds = Inr r"
    by blast
  note y = preprocess_Inr(3) [OF p(3)]
  from models_Inr [OF p(4)] obtain X_scaled idx p_svm p_rf p_cnn where
    m: "fit_transform L X = Inr X_scaled" "length X_scaled = length y"
      "train_indices L (length y) = Inr idx"
      "model_svm L (map ((!) X_scaled) idx) (map ((!) y) idx) X_scaled = Inr p_svm"
      "model_rf L (map ((!) X_scaled) idx) (map ((!) y) idx) X_scaled = Inr p_rf"
      "model_cnn L (map ((!) (reshape X_scaled)) idx) (map ((!) y) idx) (reshape X_scaled)
         = Inr p_cnn"
      "ps = [(''SVM (SVR)'', p_svm), (''Random Forest'', p_rf), (''CNN'', p_cnn)]"
    by blast
  have which: "Model r = ''SVM (SVR)''
              \<and> (\<exists>f. svr_fit L (map ((!) X_scaled) idx) (map ((!) y) idx) = Inr f
                    \<and> f X_scaled = Inr preds)
            \<or> Model r = ''Random Forest''
              \<and> (\<exists>f. rf_fit L (map ((!) X_scaled) idx) (map ((!) y) idx) = Inr f
                    \<and> f X_scaled = Inr preds)
            \<or> Model r = ''CNN''
              \<and> (\<exists>f q. cnn_fit L (map ((!) (reshape X_scaled)) idx) (map ((!) y) idx) = Inr f
                    \<and> f (reshape X_scaled) = Inr q \<and> preds = concat q)"
    using p(5) m(4,5,6) unfolding m(7) model_svm_Inr model_rf_Inr model_cnn_Inr by auto
  from score_Inr(3) [OF p(6)] obtain mae rmse r2 where
    s: "mean_absolute_error L y preds = Inr mae" "mean_squared_error L y preds = Inr rmse"
      "r2_score L y preds = Inr r2" "MAE r = np_round 6 mae" "RMSE r = np_round 6 rmse"
      "R2_Score r = py_round 4 r2"
    by blast
  have vs: "valid_split L \<longrightarrow>
              idx \<noteq> [] \<and> distinct idx \<and> (\<forall>i \<in> set idx. i < length y)
              \<and> length idx = length y - (length y + 4) div 5
              \<and> set (map ((!) X_scaled) idx) \<subseteq> set X_scaled
              \<and> set (map ((!) y) idx) \<subseteq> set y"
    using m(3) by (rule valid_split_rows) (simp add: m(2))
  from p(1,2,3) y m(1,2,3) vs which s
  show "\<exists>path df0 df X y X_scaled idx preds mae rmse r2.
         (Attack r, path) \<in> set attack_files \<and> read_csv L path = Inr df0
         \<and> preprocess df0 = Inr (df, X, y)
         \<and> getitem df0 ''Swarm Coordination Rate'' = Inr y
         \<and> fit_transform L X = Inr X_scaled \<and> length X_scaled = length y
         \<and> train_indices L (length y) = Inr idx
         \<and> (valid_split L \<longrightarrow>
              idx \<noteq> [] \<and> distinct idx \<and> (\<forall>i \<in> set idx. i < length y)
              \<and> length idx = length y - (length y + 4) div 5
              \<and> set (map ((!) X_scaled) idx) \<subseteq> set X_scaled
              \<and> set (map ((!) y) idx) \<subseteq> set y)
         \<and> (Model r = ''SVM (SVR)''
              \<and> (\<exists>f. svr_fit L (map ((!) X_scaled) idx) (map ((!) y) idx) = Inr f
                    \<and> f X_scaled = Inr preds)
            \<or> Model r = ''Random Forest''
              \<and> (\<exists>f. rf_fit L (map ((!) X_scaled) idx) (map ((!) y) idx) = Inr f
                    \<and> f X_scaled = Inr preds)
            \<or> Model r = ''CNN''
              \<and> (\<exists>f q. cnn_fit L (map ((!) (reshape X_scaled)) idx) (map ((!) y) idx) = Inr f
                    \<and> f (reshape X_scaled) = Inr q \<and> preds = concat q))
         \<and> mean_absolute_error L y preds = Inr mae
         \<and> mean_squared_error L y preds = Inr rmse \<and> r2_score L y preds = Inr r2
         \<and> MAE r = np_round 6 mae \<and> RMSE r = np_round 6 rmse
         \<and> R2_Score r = py_round 4 r2"
    by blast
next
  assume "(attack, model, cm) \<in> set (conf_data (state_of (collect_confusion C)))"
  from conf_data_provenance [OF this] obtain path df0 df y_true ps preds where
    p: "(attack, path) \<in> set file_paths" "read_csv C path = Inr df0"
      "feature_engineering df0 = Inr df"
      "getitem df0 ''Swarm Coordination Rate'' = Inr y_true"
      "preds_dict C df (binarize y_true) = Inr ps" "(model, preds) \<in> set ps"
      "confusion_matrix (binarize y_true) (binarize preds) = Inr cm"
    by blast
  from preds_dict_Inr [OF p(5)] obtain X X_scaled idx p_rf p_svm p_cnn where
    m: "select_columns df features = Inr X"
      "fit_transform C X = Inr X_scaled" "length X_scaled = length (binarize y_true)"
      "train_indices C (length (binarize y_true)) = Inr idx"
      "model_rf C (map ((!) X_scaled) idx) (map ((!) (binarize y_true)) idx) X_scaled
         = Inr p_rf"
      "model_svm C (map ((!) X_scaled) idx) (map ((!) (binarize y_true)) idx) X_scaled
         = Inr p_svm"
      "model_cnn C (map ((!) (reshape X_scaled)) idx) (map ((!) (binarize y_true)) idx)
         (reshape X_scaled) = Inr p_cnn"
      "ps = [(''Random Forest'', p_rf), (''SVM'', p_svm), (''CNN'', p_cnn)]"
    by blast
  have which: "model = ''Random Forest''
              \<and> (\<exists>f. rf_fit C (map ((!) X_scaled) idx) (map ((!) (binarize y_true)) idx)
                        = Inr f
                    \<and> f X_scaled = Inr preds)
            \<or> model = ''SVM''
              \<and> (\<exists>f. svr_fit C (map ((!) X_scaled) idx) (map ((!) (binarize y_true)) idx)
                        = Inr f
                    \<and> f X_scaled = Inr preds)
            \<or> model = ''CNN''
              \<and> (\<exists>f q. cnn_fit C (map ((!) (reshape X_scaled)) idx)
                          (map ((!) (binarize y_true)) idx) = Inr f
                    \<and> f (reshape X_scaled) = Inr q \<and> preds = concat q)"
    using p(6) m(5,6,7) unfolding m(8) model_svm_Inr model_rf_Inr model_cnn_Inr by auto
  have len: "length X_scaled = length y_true" "train_indices C (length y_true) = Inr idx"
    using m(3,4) by simp_all
  have lp: "length preds = length y_true"
    using confusion_matrix_total(1) [OF p(7)] .
  have vs: "valid_split C \<longrightarrow>
              idx \<noteq> [] \<and> distinct idx \<and> (\<forall>i \<in> set idx. i < length y_true)
              \<and> length idx = length y_true - (length y_true + 4) div 5
              \<and> set (map ((!) X_scaled) idx) \<subseteq> set X_scaled
              \<and> set (map ((!) (binarize y_true)) idx) \<subseteq> set (binarize y_true)"
    using valid_split_rows [where L = C and y = "binarize y_true" and X = X_scaled
        and idx = idx] m(3,4)
    by (simp add: binarize_length)
  from p(1,2,3,4) m(1,2) len vs which lp p(7)
  show "\<exists>path df0 df y_true X X_scaled idx preds.
         (attack, path) \<in> set file_paths \<and> read_csv C path = Inr df0
         \<and> feature_engineering df0 = Inr df
         \<and> getitem df0 ''Swarm Coordination Rate'' = Inr y_true
         \<and> select_columns df features = Inr X
         \<and> fit_transform C X = Inr X_scaled \<and> length X_scaled = length y_true
         \<and> train_indices C (length y_true) = Inr idx
         \<and> (valid_split C \<longrightarrow>
              idx \<noteq> [] \<and> distinct idx \<and> (\<forall>i \<in> set idx. i < length y_true)
              \<and> length idx = length y_true - (length y_true + 4) div 5
              \<and> set (map ((!) X_scaled) idx) \<subseteq> set X_scaled
              \<and> set (map ((!) (binarize y_true)) idx) \<subseteq> set (binarize y_true))
         \<and> (model = ''Random Forest''
              \<and> (\<exists>f. rf_fit C (map ((!) X_scaled) idx) (map ((!) (binarize y_true)) idx)
                        = Inr f
                    \<and> f X_scaled = Inr preds)
            \<or> model = ''SVM''
              \<and> (\<exists>f. svr_fit C (map ((!) X_scaled) idx) (map ((!) (binarize y_true)) idx)
                        = Inr f
                    \<and> f X_scaled = Inr preds)
            \<or> model = ''CNN''
              \<and> (\<exists>f q. cnn_fit C (map ((!) (reshape X_scaled)) idx)
                          (map ((!) (binarize y_true)) idx) = Inr f
                    \<and> f (reshape X_scaled) = Inr q \<and> preds = concat q))
         \<and> length preds = length y_true
         \<and> confusion_matrix (binarize y_true) (binarize preds) = Inr cm"
    by blast
qed

theorem metrics_over_all_rows_witness:
  "\<lparr>Attack = ''Critical Node'', Model = ''Random Forest'', MAE = 7 / 8, RMSE = 7 / 8,
      R2_Score = 1 / 8\<rparr> \<in> set (summary (state_of (evaluation_pipeline demo)))
   \<and> valid_split (demo :: rat library)
   \<and> (\<exists>path df0 df X y X_scaled idx preds r2.
         (''Critical Node'', path) \<in> set attack_files
         \<and> read_csv (demo :: rat library) path = Inr df0
         \<and> preprocess df0 = Inr (df, X, y)
         \<and> getitem df0 ''Swarm Coordination Rate'' = Inr y
         \<and> fit_transform (demo :: rat library) X = Inr X_scaled
         \<and> length X_scaled = length y
         \<and> train_indices (demo :: rat library) (length y) = Inr idx
         \<and> idx \<noteq> [] \<and> distinct idx \<and> (\<forall>i \<in> set idx. i < length y)
         \<and> length idx = length y - (length y + 4) div 5
         \<and> set (map ((!) X_scaled) idx) \<subseteq> set X_scaled
         \<and> (\<exists>f. rf_fit (demo :: rat library) (map ((!) X_scaled) idx) (map ((!) y) idx)
                   = Inr f
               \<and> f X_scaled = Inr preds)
         \<and> r2_score (demo :: rat library) y preds = Inr r2 \<and> 1 / 8 = py_round 4 r2)
   \<and> (''Critical Node'', ''SVM'', ((0, 1), (0, 2)))
       \<in> set (conf_data (state_of (collect_confusion demo)))
   \<and> valid_split (demo :: nat library)
   \<and> (\<exists>path df0 y_true idx preds.
         (''Critical Node'', path) \<in> set file_paths
         \<and> read_csv (demo :: nat library) path = Inr df0
         \<and> getitem df0 ''Swarm Coordination Rate'' = Inr y_true
         \<and> train_indices (demo :: nat library) (length y_true) = Inr idx
         \<and> idx \<noteq> [] \<and> distinct idx \<and> (\<forall>i \<in> set idx. i < length y_true)
         \<and> length idx = length y_true - (length y_true + 4) div 5
         \<and> length preds = length y_true
         \<and> confusion_matrix (binarize y_true) (binarize preds) = Inr ((0, 1), (0, 2)))"
proof -
  let ?r = "\<lparr>Attack = ''Critical Node'', Model = ''Random Forest'', MAE = 7 / 8,
    RMSE = 7 / 8, R2_Score = 1 / 8\<rparr>"
  have a: "?r \<in> set (summary (state_of (evaluation_pipeline demo)))"
    by (simp add: evaluation_pipeline_demo demo_summary_def)
  have b: "(''Critical Node'', ''SVM'', ((0, 1), (0, 2)))
       \<in> set (conf_data (state_of (collect_confusion demo)))"
    by (simp add: collect_confusion_demo)
  note vr = valid_split_demo [where ?'y = rat]
  note vn = valid_split_demo [where ?'y = nat]
  note th = metrics_over_all_rows [where r = ?r and L = demo and attack = "''Critical Node''"
      and model = "''SVM''" and cm = "((0, 1), (0, 2))" and C = demo]
  from th a vr have "\<exists>path df0 df X y X_scaled idx preds r2.
         (''Critical Node'', path) \<in> set attack_files
         \<and> read_csv (demo :: rat library) path = Inr df0
         \<and> preprocess df0 = Inr (df, X, y)
         \<and> getitem df0 ''Swarm Coordination Rate'' = Inr y
         \<and> fit_transform (demo :: rat library) X = Inr X_scaled
         \<and> length X_scaled = length y
         \<and> train_indices (demo :: rat library) (length y) = Inr idx
         \<and> idx \<noteq> [] \<and> distinct idx \<and> (\<forall>i \<in> set idx. i < length y)
         \<and> length idx = length y - (length y + 4) div 5
         \<and> set (map ((!) X_scaled) idx) \<subseteq> set X_scaled
         \<and> (\<exists>f. rf_fit (demo :: rat library) (map ((!) X_scaled) idx) (map ((!) y) idx)
                   = Inr f
               \<and> f X_scaled = Inr preds)
         \<and> r2_score (demo :: rat library) y preds = Inr r2 \<and> 1 / 8 = py_round 4 r2"
    apply simp
    apply (elim exE conjE)
    apply (intro exI conjI)
                     apply assumption+
    done
  moreover from th b vn have "\<exists>path df0 y_true idx preds.
         (''Critical Node'', path) \<in> set file_paths
         \<and> read_csv (demo :: nat library) path = Inr df0
         \<and> getitem df0 ''Swarm Coordination Rate'' = Inr y_true
         \<and> train_indices (demo :: nat library) (length y_true) = Inr idx
         \<and> idx \<noteq> [] \<and> distinct idx \<and> (\<forall>i \<in> set idx. i < length y_true)
         \<and> length idx = length y_true - (length y_true + 4) div 5
         \<and> length preds = length y_true
         \<and> confusion_matrix (binarize y_true) (binarize preds) = Inr ((0, 1), (0, 2))"
    by blast
  ultimately show ?thesis
    using a b vr vn by blast
qed

subsection \<open>Order of the tables\<close>



















subsection \<open>A fit that fails\<close>













end
